theory Spec2Isabelle
  imports Complex_Main
begin

section \<open>JSON values and the Python operations the clients apply to them\<close>

text \<open>
  The three test clients (\<^verbatim>\<open>e2e_tests/mcp_client.py\<close>, \<^verbatim>\<open>e2e_tests/http_client.py\<close>,
  \<^verbatim>\<open>e2e_tests/sse_client.py\<close>) exchange JSON-RPC messages. A decoded JSON document is a
  value of \<open>json\<close>; a Python \<^verbatim>\<open>dict\<close> is an association list in insertion order, Python's
  \<^verbatim>\<open>None\<close> is \<open>JNull\<close>. Numbers with a fractional part are not represented.
  Byte strings and text are both \<open>string\<close>.
\<close>

datatype json =
    JNull
  | JBool bool
  | JInt int
  | JStr string
  | JArr "json list"
  | JObj "(string \<times> json) list"

datatype error =
    Timeout
  | TransportClosed
  | SessionMismatch string string
  | UnexpectedContentType string int
  | BadStatusLine string
  | InitializeFailed "json option"
  | SseGetFailed int
  | SseStreamEnded
  | NoEndpoint
  | SsePostFailed int
  | JSONDecodeError
  | UnicodeDecodeError
  | PyTypeError
  | PyAttributeError
  | PyValueError
  | SocketTimeout

text \<open>
  The functions of the Python standard library whose results the source only consumes:
  \<^verbatim>\<open>json.loads\<close> on text, where \<open>None\<close> stands for the \<^verbatim>\<open>JSONDecodeError\<close> it raises;
  \<^verbatim>\<open>bytes.decode("utf-8")\<close>, where \<open>None\<close> stands for its \<^verbatim>\<open>UnicodeDecodeError\<close>; and
  \<^verbatim>\<open>json.loads\<close> on bytes, which finds the encoding (UTF-8, UTF-16 or UTF-32) by itself
  and raises either of the two errors.
\<close>

record pylib =
  json_loads :: "string \<Rightarrow> json option"
  utf8_decode :: "string \<Rightarrow> string option"
  json_loads_bytes :: "string \<Rightarrow> error + json"

text \<open>\<^verbatim>\<open>json.loads(b.decode("utf-8"))\<close> inside \<^verbatim>\<open>try\<close> and \<^verbatim>\<open>except Exception\<close>: every
  exception becomes \<^verbatim>\<open>None\<close>.\<close>

definition loads_bytes :: "pylib \<Rightarrow> string \<Rightarrow> json option" where
  "loads_bytes L b = (case utf8_decode L b of None \<Rightarrow> None | Some t \<Rightarrow> json_loads L t)"

text \<open>Python's truth value of a decoded document (\<^verbatim>\<open>if x\<close>, \<^verbatim>\<open>x or y\<close>).\<close>

fun truthy :: "json \<Rightarrow> bool" where
  "truthy JNull = False"
| "truthy (JBool b) = b"
| "truthy (JInt n) = (n \<noteq> 0)"
| "truthy (JStr s) = (s \<noteq> [])"
| "truthy (JArr xs) = (xs \<noteq> [])"
| "truthy (JObj kv) = (kv \<noteq> [])"

text \<open>\<^verbatim>\<open>d.get(k)\<close> on a dict: the value, or \<^verbatim>\<open>None\<close>.\<close>

definition dict_get :: "(string \<times> json) list \<Rightarrow> string \<Rightarrow> json" where
  "dict_get kv k = (case map_of kv k of None \<Rightarrow> JNull | Some v \<Rightarrow> v)"

text \<open>\<^verbatim>\<open>m.get(k)\<close> on any decoded value: only a dict has the method.\<close>

fun py_get :: "json \<Rightarrow> string \<Rightarrow> error + json" where
  "py_get (JObj kv) k = Inr (dict_get kv k)"
| "py_get _ k = Inl PyAttributeError"

text \<open>Python's \<^verbatim>\<open>==\<close> on decoded values: \<^verbatim>\<open>True == 1\<close>, dicts compare without order.\<close>

fun py_num :: "json \<Rightarrow> int option" where
  "py_num (JInt n) = Some n"
| "py_num (JBool b) = Some (if b then 1 else 0)"
| "py_num _ = None"

fun py_eq :: "json \<Rightarrow> json \<Rightarrow> bool"
  and py_eq_list :: "json list \<Rightarrow> json list \<Rightarrow> bool"
  and py_eq_items :: "(string \<times> json) list \<Rightarrow> (string \<times> json) list \<Rightarrow> bool" where
  "py_eq JNull JNull = True"
| "py_eq (JStr a) (JStr b) = (a = b)"
| "py_eq (JArr xs) (JArr ys) = py_eq_list xs ys"
| "py_eq (JObj a) (JObj b) = (length a = length b \<and> py_eq_items a b)"
| "py_eq x y = (case (py_num x, py_num y) of (Some m, Some n) \<Rightarrow> m = n | _ \<Rightarrow> False)"
| "py_eq_list [] [] = True"
| "py_eq_list (x # xs) (y # ys) = (py_eq x y \<and> py_eq_list xs ys)"
| "py_eq_list _ _ = False"
| "py_eq_items [] b = True"
| "py_eq_items ((k, v) # rest) b =
     ((case map_of b k of None \<Rightarrow> False | Some w \<Rightarrow> py_eq v w) \<and> py_eq_items rest b)"

text \<open>\<^verbatim>\<open>k in x\<close> with a text key: dict membership, list membership, substring of text;
  any other value is not a container.\<close>

definition startswith :: "string \<Rightarrow> string \<Rightarrow> bool" where
  "startswith s p = (take (length p) s = p)"

fun str_in :: "string \<Rightarrow> string \<Rightarrow> bool" where
  "str_in p [] = (p = [])"
| "str_in p (c # cs) = (startswith (c # cs) p \<or> str_in p cs)"

fun py_contains :: "string \<Rightarrow> json \<Rightarrow> error + bool" where
  "py_contains k (JObj kv) = Inr (map_of kv k \<noteq> None)"
| "py_contains k (JArr xs) = Inr (list_ex (py_eq (JStr k)) xs)"
| "py_contains k (JStr s) = Inr (str_in k s)"
| "py_contains k _ = Inl PyTypeError"

section \<open>Bytes and text\<close>

text \<open>\<^verbatim>\<open>bytes.lstrip()\<close> removes the leading ASCII whitespace \<^verbatim>\<open>b' \t\n\r\x0b\x0c'\<close>.\<close>

definition bytes_ws :: "char \<Rightarrow> bool" where
  "bytes_ws c = (c = CHR 0x20 \<or> c = CHR 0x09 \<or> c = CHR 0x0A \<or> c = CHR 0x0D
                 \<or> c = CHR 0x0B \<or> c = CHR 0x0C)"

definition bytes_lstrip :: "string \<Rightarrow> string" where
  "bytes_lstrip s = dropWhile bytes_ws s"

text \<open>\<^verbatim>\<open>line.rstrip(b"\r\n")\<close> removes every trailing CR and LF.\<close>

definition rstrip_crlf :: "string \<Rightarrow> string" where
  "rstrip_crlf s = rev (dropWhile (\<lambda>c. c = CHR 0x0D \<or> c = CHR 0x0A) (rev s))"

text \<open>\<^verbatim>\<open>str.strip()\<close>: the whitespace code points below 256.\<close>

definition str_ws :: "char \<Rightarrow> bool" where
  "str_ws c = (let n = (of_char c :: nat) in
     (9 \<le> n \<and> n \<le> 13) \<or> (28 \<le> n \<and> n \<le> 32) \<or> n = 133 \<or> n = 160)"

definition str_strip :: "string \<Rightarrow> string" where
  "str_strip s = rev (dropWhile str_ws (rev (dropWhile str_ws s)))"

text \<open>\<^verbatim>\<open>(resp.getheader("Content-Type") or "").split(";")[0].strip()\<close>.\<close>

definition media_type :: "string option \<Rightarrow> string" where
  "media_type h =
     str_strip (takeWhile (\<lambda>ch. ch \<noteq> CHR '';'') (case h of None \<Rightarrow> [] | Some v \<Rightarrow> v))"

text \<open>The successive results of \<^verbatim>\<open>readline()\<close> on a body: each line with its LF, the
  last one possibly without; the empty list is end of stream.\<close>

fun split_lines :: "string \<Rightarrow> string list" where
  "split_lines [] = []"
| "split_lines (c # cs) =
     (if c = CHR 0x0A then [c] # split_lines cs
      else (case split_lines cs of [] \<Rightarrow> [[c]] | l # ls \<Rightarrow> (c # l) # ls))"

section \<open>The streamable HTTP client (\<^verbatim>\<open>e2e_tests/http_client.py\<close>)\<close>

text \<open>
  \<open>http_posted\<close> is the transport: every POST that left the client, headers and payload.
  The other fields are the attributes of \<^verbatim>\<open>MCPHTTPStreamableClient\<close>.
\<close>

record http_state =
  http_host :: string
  http_port :: int
  http_protocol_version :: string
  http_session_id :: string
  http_next_id :: int
  http_posted :: "((string \<times> string) list \<times> json) list"

definition http_init :: "string \<Rightarrow> int \<Rightarrow> string \<Rightarrow> http_state" where
  "http_init h p pv =
     \<lparr>http_host = h, http_port = p, http_protocol_version = pv, http_session_id = [],
      http_next_id = 1, http_posted = []\<rparr>"

text \<open>What the server does with one POST: \<^verbatim>\<open>getresponse()\<close> raises \<^verbatim>\<open>BadStatusLine\<close>, or
  returns a response with a status, the two headers the client reads, and a body.\<close>

record http_response =
  status :: int
  mcp_session_id :: "string option"
  content_type :: "string option"
  body :: string

datatype http_reply = RaisesBadStatusLine string | Responds http_response

text \<open>What happened to the connection of one call.\<close>

record conn_end =
  drained :: bool
  resp_closed :: bool
  conn_closed :: bool

definition headers :: "http_state \<Rightarrow> (string \<times> string) list" where
  "headers c =
     [(''Content-Type'', ''application/json''),
      (''Accept'', ''application/json, text/event-stream''),
      (''Mcp-Protocol-Version'', http_protocol_version c),
      (''Connection'', ''close'')]
     @ (if http_session_id c \<noteq> [] then [(''Mcp-Session-Id'', http_session_id c)] else [])"

text \<open>The \<^verbatim>\<open>for m in msg\<close> loop over a batched array (lines 98 to 106).\<close>

fun scan_batch :: "bool \<Rightarrow> json \<Rightarrow> json list \<Rightarrow> error + json option" where
  "scan_batch expect_response target_id [] = Inr None"
| "scan_batch expect_response target_id (m # ms) =
     (if \<not> expect_response then scan_batch expect_response target_id ms
      else (case py_get m ''id'' of
              Inl e \<Rightarrow> Inl e
            | Inr v \<Rightarrow> if py_eq v target_id then Inr (Some m)
                       else scan_batch expect_response target_id ms))"

text \<open>The \<^verbatim>\<open>while True\<close> loop over the lines of an event stream (lines 79 to 120); the
  third argument is \<^verbatim>\<open>buf\<close>, the list the chunks \<^verbatim>\<open>readline()\<close> still returns.\<close>

fun read_sse_events :: "pylib \<Rightarrow> bool \<Rightarrow> json \<Rightarrow> string \<Rightarrow> string list \<Rightarrow> error + json option" where
  "read_sse_events L expect_response target_id buf [] = Inr None"
| "read_sse_events L expect_response target_id buf (chunk # rest) =
     (if chunk = [] then Inr None
      else let line = rstrip_crlf chunk in
        if startswith line ''data:'' then
          read_sse_events L expect_response target_id
            (buf @ bytes_lstrip (drop 5 line) @ [CHR 0x0A]) rest
        else if line = [] then
          (if buf \<noteq> [] then
             (case loads_bytes L buf of
                Some (JArr ms) \<Rightarrow>
                  (case scan_batch expect_response target_id ms of
                     Inl e \<Rightarrow> Inl e
                   | Inr (Some m) \<Rightarrow> Inr (Some m)
                   | Inr None \<Rightarrow> read_sse_events L expect_response target_id [] rest)
              | Some (JObj kv) \<Rightarrow>
                  (if \<not> expect_response then read_sse_events L expect_response target_id [] rest
                   else if py_eq (dict_get kv ''id'') target_id then Inr (Some (JObj kv))
                   else read_sse_events L expect_response target_id [] rest)
              | _ \<Rightarrow> read_sse_events L expect_response target_id [] rest)
           else read_sse_events L expect_response target_id buf rest)
        else read_sse_events L expect_response target_id buf rest)"

text \<open>Lines 61 to 127: the branches on status and content type, once the session header
  has been looked at.\<close>

definition read_response :: "pylib \<Rightarrow> (string \<times> json) list \<Rightarrow> bool \<Rightarrow> http_response
    \<Rightarrow> (error + json option) \<times> conn_end" where
  "read_response L payload expect_response resp =
     (if status resp = 202 \<or> status resp = 204 \<or> \<not> expect_response then
        (Inr None, \<lparr>drained = True, resp_closed = True, conn_closed = True\<rparr>)
      else
        let ctype = media_type (content_type resp) in
        if ctype = ''application/json'' then
          ((if body resp \<noteq> [] then
              (case json_loads_bytes L (body resp) of
                 Inl e \<Rightarrow> Inl e
               | Inr j \<Rightarrow> Inr (Some j))
            else Inr None),
           \<lparr>drained = True, resp_closed = True, conn_closed = True\<rparr>)
        else if ctype = ''text/event-stream'' then
          (case read_sse_events L expect_response (dict_get payload ''id'') []
                  (split_lines (body resp)) of
             Inl e \<Rightarrow> (Inl e, \<lparr>drained = False, resp_closed = False, conn_closed = False\<rparr>)
           | Inr r \<Rightarrow> (Inr r, \<lparr>drained = False, resp_closed = True, conn_closed = True\<rparr>))
        else
          (Inl (UnexpectedContentType ctype (status resp)),
           \<lparr>drained = True, resp_closed = True, conn_closed = True\<rparr>))"

text \<open>\<^verbatim>\<open>_send_and_read\<close>: the POST, the \<^verbatim>\<open>BadStatusLine\<close> handler, the session header
  (lines 53 to 59), then the branches above.\<close>

definition send_and_read :: "pylib \<Rightarrow> http_state \<Rightarrow> (string \<times> json) list \<Rightarrow> bool \<Rightarrow> http_reply
    \<Rightarrow> (error + json option) \<times> http_state \<times> conn_end" where
  "send_and_read L c payload expect_response reply =
     (let c1 = c\<lparr>http_posted := http_posted c @ [(headers c, JObj payload)]\<rparr> in
      case reply of
        RaisesBadStatusLine e \<Rightarrow>
          if \<not> expect_response \<and> (str_strip e = ''0'' \<or> str_strip e = [])
          then (Inr None, c1, \<lparr>drained = False, resp_closed = False, conn_closed = True\<rparr>)
          else (Inl (BadStatusLine e), c1,
                \<lparr>drained = False, resp_closed = False, conn_closed = False\<rparr>)
      | Responds resp \<Rightarrow>
          (case mcp_session_id resp of
             None \<Rightarrow>
               (let (r, ce) = read_response L payload expect_response resp in (r, c1, ce))
           | Some sid \<Rightarrow>
               if sid \<noteq> [] \<and> http_session_id c1 = [] then
                 (let c2 = c1\<lparr>http_session_id := sid\<rparr>;
                      (r, ce) = read_response L payload expect_response resp
                  in (r, c2, ce))
               else if sid \<noteq> [] \<and> http_session_id c1 \<noteq> [] \<and> sid \<noteq> http_session_id c1 then
                 (Inl (SessionMismatch (http_session_id c1) sid), c1,
                  \<lparr>drained = True, resp_closed = False, conn_closed = False\<rparr>)
               else
                 (let (r, ce) = read_response L payload expect_response resp in (r, c1, ce))))"

text \<open>\<^verbatim>\<open>initialize\<close>, \<^verbatim>\<open>send_initialized\<close>, \<^verbatim>\<open>request\<close>, \<^verbatim>\<open>tools_list\<close>, \<^verbatim>\<open>tools_call\<close>.\<close>

definition initialize_params :: "string \<Rightarrow> string \<Rightarrow> string \<Rightarrow> json" where
  "initialize_params pv client_name version =
     JObj [(''protocolVersion'', JStr pv),
           (''clientInfo'', JObj [(''name'', JStr client_name), (''version'', JStr version)]),
           (''capabilities'', JObj [])]"

definition request_msg :: "int \<Rightarrow> string \<Rightarrow> json option \<Rightarrow> (string \<times> json) list" where
  "request_msg rid method params =
     [(''jsonrpc'', JStr ''2.0''), (''id'', JInt rid), (''method'', JStr method)]
     @ (case params of None \<Rightarrow> [] | Some p \<Rightarrow> [(''params'', p)])"

definition initialized_note :: "(string \<times> json) list" where
  "initialized_note =
     [(''jsonrpc'', JStr ''2.0''), (''method'', JStr ''notifications/initialized''),
      (''params'', JObj [])]"

definition tools_call_params :: "string \<Rightarrow> json option \<Rightarrow> json" where
  "tools_call_params name arguments =
     JObj ([(''name'', JStr name)]
           @ (case arguments of None \<Rightarrow> [] | Some a \<Rightarrow> [(''arguments'', a)]))"

definition http_initialize :: "pylib \<Rightarrow> http_state \<Rightarrow> string \<Rightarrow> string \<Rightarrow> http_reply
    \<Rightarrow> (error + json) \<times> http_state" where
  "http_initialize L c client_name version reply =
     (let rid = http_next_id c;
          c1 = c\<lparr>http_next_id := rid + 1\<rparr>;
          req = request_msg rid ''initialize''
                  (Some (initialize_params (http_protocol_version c1) client_name version));
          (r, c2, ce) = send_and_read L c1 req True reply
      in case r of
           Inl e \<Rightarrow> (Inl e, c2)
         | Inr None \<Rightarrow> (Inl (InitializeFailed None), c2)
         | Inr (Some resp) \<Rightarrow>
             if \<not> truthy resp then (Inl (InitializeFailed (Some resp)), c2)
             else (case py_contains ''error'' resp of
                     Inl e \<Rightarrow> (Inl e, c2)
                   | Inr True \<Rightarrow> (Inl (InitializeFailed (Some resp)), c2)
                   | Inr False \<Rightarrow> (Inr resp, c2)))"

definition http_send_initialized :: "pylib \<Rightarrow> http_state \<Rightarrow> http_reply
    \<Rightarrow> (error + unit) \<times> http_state" where
  "http_send_initialized L c reply =
     (let (r, c1, ce) = send_and_read L c initialized_note False reply
      in case r of Inl e \<Rightarrow> (Inl e, c1) | Inr _ \<Rightarrow> (Inr (), c1))"

definition http_request :: "pylib \<Rightarrow> http_state \<Rightarrow> string \<Rightarrow> json option \<Rightarrow> http_reply
    \<Rightarrow> (error + json) \<times> http_state" where
  "http_request L c method params reply =
     (let rid = http_next_id c;
          c1 = c\<lparr>http_next_id := rid + 1\<rparr>;
          req = request_msg rid method params;
          (r, c2, ce) = send_and_read L c1 req True reply
      in case r of
           Inl e \<Rightarrow> (Inl e, c2)
         | Inr None \<Rightarrow> (Inr (JObj []), c2)
         | Inr (Some resp) \<Rightarrow> (Inr (if truthy resp then resp else JObj []), c2))"

definition http_tools_list :: "pylib \<Rightarrow> http_state \<Rightarrow> http_reply \<Rightarrow> (error + json) \<times> http_state" where
  "http_tools_list L c reply = http_request L c ''tools/list'' (Some (JObj [])) reply"

definition http_tools_call :: "pylib \<Rightarrow> http_state \<Rightarrow> string \<Rightarrow> json option \<Rightarrow> http_reply
    \<Rightarrow> (error + json) \<times> http_state" where
  "http_tools_call L c name arguments reply =
     http_request L c ''tools/call'' (Some (tools_call_params name arguments)) reply"

section \<open>The stdio client (\<^verbatim>\<open>e2e_tests/mcp_client.py\<close>)\<close>

text \<open>
  The server process is the environment. \<open>written\<close> is what the client has written to its
  stdin. \<open>incoming\<close> is what the further reads of the pipe of its stdout return, each with
  the time from which it is there to read; a read may return part of a line or several
  lines. \<open>ending\<close> is what follows the last of them: end of stream from some time on, or
  silence. \<open>buffered\<close> is the text Python's file object has read from the pipe and not
  yet returned. \<open>clock\<close> is \<^verbatim>\<open>time.time()\<close>, which advances while the client is blocked.
  The other two fields are the attributes \<^verbatim>\<open>_next_id\<close> and \<^verbatim>\<open>_notifications\<close>.
\<close>

datatype stream_end = Closed real | Silent

record stdio_state =
  stdio_next_id :: int
  notifications :: "json list"
  written :: "json list"
  buffered :: string
  incoming :: "(real \<times> string) list"
  ending :: stream_end
  clock :: real

definition stdio_init :: "(real \<times> string) list \<Rightarrow> stream_end \<Rightarrow> real \<Rightarrow> stdio_state" where
  "stdio_init ls e t =
     \<lparr>stdio_next_id = 1, notifications = [], written = [], buffered = [], incoming = ls,
      ending = e, clock = t\<rparr>"

definition write_msg :: "stdio_state \<Rightarrow> json \<Rightarrow> stdio_state" where
  "write_msg s msg = s\<lparr>written := written s @ [msg]\<rparr>"

text \<open>\<^verbatim>\<open>select.select([fd], [], [], timeout)\<close> looks at the pipe, not at what Python has
  buffered: the pipe is readable once the next read has something to return, or the
  stream has ended.\<close>

definition select_readable :: "stdio_state \<Rightarrow> real \<Rightarrow> bool \<times> stdio_state" where
  "select_readable s timeout =
     (case incoming s of
        (\<tau>, d) # rest \<Rightarrow>
          if \<tau> \<le> clock s + timeout then (True, s\<lparr>clock := max (clock s) \<tau>\<rparr>)
          else (False, s\<lparr>clock := clock s + timeout\<rparr>)
      | [] \<Rightarrow>
          (case ending s of
             Closed \<tau> \<Rightarrow>
               if \<tau> \<le> clock s + timeout then (True, s\<lparr>clock := max (clock s) \<tau>\<rparr>)
               else (False, s\<lparr>clock := clock s + timeout\<rparr>)
           | Silent \<Rightarrow> (False, s\<lparr>clock := clock s + timeout\<rparr>)))"

text \<open>The first line of a text, with its LF, and what follows it; \<open>None\<close> when the text
  has no LF.\<close>

fun take_line :: "string \<Rightarrow> (string \<times> string) option" where
  "take_line [] = None"
| "take_line (c # cs) =
     (if c = CHR 0x0A then Some ([c], cs)
      else (case take_line cs of None \<Rightarrow> None | Some (l, r) \<Rightarrow> Some (c # l, r)))"

text \<open>
  \<^verbatim>\<open>readline()\<close> has no timeout. It returns a line that is already buffered; otherwise
  it reads the pipe, waiting for each read as long as it takes, until the buffer holds a
  line or the stream ends, when it returns what is buffered (the empty text when nothing
  is). After the last read of a silent server it waits for ever: the result \<open>None\<close>, with
  the buffer, the clock and the remaining reads as the wait leaves them. A read that
  returns nothing is the end of the stream.
\<close>

fun read_until_line :: "string \<Rightarrow> real \<Rightarrow> stream_end \<Rightarrow> (real \<times> string) list
    \<Rightarrow> string option \<times> string \<times> real \<times> (real \<times> string) list" where
  "read_until_line buf clk e [] =
     (case e of
        Closed \<tau> \<Rightarrow> (Some buf, [], max clk \<tau>, [])
      | Silent \<Rightarrow> (None, buf, clk, []))"
| "read_until_line buf clk e ((\<tau>, d) # rest) =
     (if d = [] then (Some buf, [], max clk \<tau>, rest)
      else (case take_line (buf @ d) of
              Some (line, rem) \<Rightarrow> (Some line, rem, max clk \<tau>, rest)
            | None \<Rightarrow> read_until_line (buf @ d) (max clk \<tau>) e rest))"

definition readline :: "stdio_state \<Rightarrow> string option \<times> stdio_state" where
  "readline s =
     (case take_line (buffered s) of
        Some (line, rem) \<Rightarrow> (Some line, s\<lparr>buffered := rem\<rparr>)
      | None \<Rightarrow>
          (case read_until_line (buffered s) (clock s) (ending s) (incoming s) of
             (r, buf, clk, rest) \<Rightarrow> (r, s\<lparr>buffered := buf, incoming := rest, clock := clk\<rparr>)))"

text \<open>\<^verbatim>\<open>_read_msgs_once\<close>: \<^verbatim>\<open>select\<close> with the timeout, then one \<^verbatim>\<open>readline\<close>. The
  result \<open>None\<close> is a call that never returns.\<close>

definition read_msgs_once :: "pylib \<Rightarrow> stdio_state \<Rightarrow> real
    \<Rightarrow> (error + json list) option \<times> stdio_state" where
  "read_msgs_once L s timeout =
     (if timeout < 0 then (Some (Inl PyValueError), s)
      else case select_readable s timeout of
        (False, s1) \<Rightarrow> (Some (Inl Timeout), s1)
      | (True, s1) \<Rightarrow>
          (case readline s1 of
             (None, s2) \<Rightarrow> (None, s2)
           | (Some line, s2) \<Rightarrow>
               if line = [] then (Some (Inl TransportClosed), s2)
               else (case json_loads L line of
                       None \<Rightarrow> (Some (Inl JSONDecodeError), s2)
                     | Some (JArr ms) \<Rightarrow> (Some (Inr ms), s2)
                     | Some d \<Rightarrow> (Some (Inr [d]), s2))))"

text \<open>The \<^verbatim>\<open>for msg in msgs\<close> loop of \<^verbatim>\<open>_await_response\<close>; the second argument is
  \<^verbatim>\<open>self._notifications\<close>, returned as the loop leaves it.\<close>

fun scan_msgs :: "int \<Rightarrow> json list \<Rightarrow> json list \<Rightarrow> (error + json option) \<times> json list" where
  "scan_msgs req_id notes [] = (Inr None, notes)"
| "scan_msgs req_id notes (msg # rest) =
     (case py_contains ''id'' msg of
        Inl e \<Rightarrow> (Inl e, notes)
      | Inr False \<Rightarrow> scan_msgs req_id (notes @ [msg]) rest
      | Inr True \<Rightarrow>
          (case py_get msg ''id'' of
             Inl e \<Rightarrow> (Inl e, notes)
           | Inr v \<Rightarrow> if py_eq v (JInt req_id) then (Inr (Some msg), notes)
                      else scan_msgs req_id notes rest))"

text \<open>What is still to come from the server, in characters and reads: every line that
  \<^verbatim>\<open>readline\<close> returns makes it less.\<close>

definition to_come :: "stdio_state \<Rightarrow> nat" where
  "to_come s = length (buffered s) + sum_list (map (\<lambda>(\<tau>, d). Suc (length d)) (incoming s))"

text \<open>The \<^verbatim>\<open>while time.time() < deadline\<close> loop of \<^verbatim>\<open>_await_response\<close>.\<close>

function await_loop :: "pylib \<Rightarrow> int \<Rightarrow> real \<Rightarrow> stdio_state
    \<Rightarrow> (error + json) option \<times> stdio_state" where
  "await_loop L req_id deadline s =
     (if clock s < deadline then
        (case read_msgs_once L s (max 0 (deadline - clock s)) of
           (None, s1) \<Rightarrow> (None, s1)
         | (Some (Inl e), s1) \<Rightarrow> (Some (Inl e), s1)
         | (Some (Inr msgs), s1) \<Rightarrow>
             (case scan_msgs req_id (notifications s1) msgs of
                (Inl e, ns) \<Rightarrow> (Some (Inl e), s1\<lparr>notifications := ns\<rparr>)
              | (Inr (Some m), ns) \<Rightarrow> (Some (Inr m), s1\<lparr>notifications := ns\<rparr>)
              | (Inr None, ns) \<Rightarrow> await_loop L req_id deadline (s1\<lparr>notifications := ns\<rparr>)))
      else (Some (Inl Timeout), s))"
  by pat_completeness auto
termination
proof (relation "measure (\<lambda>(L, req_id, deadline, s). to_come s)")
  show "wf (measure (\<lambda>(L, req_id, deadline, s). to_come s))" by simp
next
  fix L :: pylib and req_id :: int and deadline :: real and s :: stdio_state
  fix x1 s1 x2 msgs
  assume rd: "(x1, s1) = read_msgs_once L s (max 0 (deadline - clock s))"
    and x1: "x1 = Some x2" and x2: "x2 = Inr msgs"
  have tl: "\<And>b line rem. take_line b = Some (line, rem) \<Longrightarrow> b = line @ rem \<and> line \<noteq> []"
  proof -
    fix b :: string and line rem
    show "take_line b = Some (line, rem) \<Longrightarrow> b = line @ rem \<and> line \<noteq> []"
      by (induction b arbitrary: line rem) (auto split: if_splits option.splits)
  qed
  have ru: "\<And>buf clk e chunks line rem clk' rest.
      read_until_line buf clk e chunks = (Some line, rem, clk', rest) \<Longrightarrow> line \<noteq> [] \<Longrightarrow>
        length rem + sum_list (map (\<lambda>(\<tau>, d). Suc (length d)) rest)
          < length buf + sum_list (map (\<lambda>(\<tau>, d). Suc (length d)) chunks)"
  proof -
    fix buf :: string and clk :: real and e :: stream_end and chunks :: "(real \<times> string) list"
    fix line rem :: string and clk' :: real and rest :: "(real \<times> string) list"
    show "read_until_line buf clk e chunks = (Some line, rem, clk', rest) \<Longrightarrow> line \<noteq> [] \<Longrightarrow>
        length rem + sum_list (map (\<lambda>(\<tau>, d). Suc (length d)) rest)
          < length buf + sum_list (map (\<lambda>(\<tau>, d). Suc (length d)) chunks)"
    proof (induction buf clk e chunks rule: read_until_line.induct)
      case (1 buf clk e)
      then show ?case by (auto split: stream_end.splits)
    next
      case (2 buf clk e \<tau> d rest')
      show ?case
      proof (cases "d = []")
        case True
        with "2.prems" show ?thesis by auto
      next
        case False
        show ?thesis
        proof (cases "take_line (buf @ d)")
          case None
          with False "2.prems" "2.IH"[OF False None] show ?thesis by auto
        next
          case (Some p)
          obtain l r where p: "p = (l, r)" by (cases p)
          with Some tl[of "buf @ d" l r] have "length (buf @ d) = length l + length r" by simp
          with False Some p "2.prems" show ?thesis by auto
        qed
      qed
    qed
  qed
  have "to_come s1 < to_come s"
  proof -
    from rd x1 x2 obtain sa line where
      sel: "select_readable s (max 0 (deadline - clock s)) = (True, sa)"
      and rl: "readline sa = (Some line, s1)" and ne: "line \<noteq> []"
      by (auto simp: read_msgs_once_def
               split: if_splits prod.splits bool.splits option.splits json.splits)
    from sel have sa: "buffered sa = buffered s \<and> incoming sa = incoming s"
      by (auto simp: select_readable_def split: list.splits if_splits stream_end.splits)
    show ?thesis
    proof (cases "take_line (buffered sa)")
      case (Some p)
      obtain l r where p: "p = (l, r)" by (cases p)
      with Some rl have "s1 = sa\<lparr>buffered := r\<rparr>" and "l = line" by (auto simp: readline_def)
      with Some p tl[of "buffered sa" l r] ne sa show ?thesis
        by (auto simp: to_come_def)
    next
      case None
      obtain r buf clk rest where
        q: "read_until_line (buffered sa) (clock sa) (ending sa) (incoming sa) = (r, buf, clk, rest)"
        by (cases "read_until_line (buffered sa) (clock sa) (ending sa) (incoming sa)") auto
      with None rl have "r = Some line"
        and "s1 = sa\<lparr>buffered := buf, incoming := rest, clock := clk\<rparr>"
        by (auto simp: readline_def)
      with q ru[of "buffered sa" "clock sa" "ending sa" "incoming sa" line buf clk rest] ne sa
      show ?thesis by (auto simp: to_come_def)
    qed
  qed
  then show "\<And>ns. ((L, req_id, deadline, s1\<lparr>notifications := ns\<rparr>), (L, req_id, deadline, s))
      \<in> measure (\<lambda>(L, req_id, deadline, s). to_come s)"
    by (simp add: to_come_def)
qed

definition await_response :: "pylib \<Rightarrow> stdio_state \<Rightarrow> int \<Rightarrow> real
    \<Rightarrow> (error + json) option \<times> stdio_state" where
  "await_response L s req_id timeout = await_loop L req_id (clock s + timeout) s"

definition stdio_initialize :: "pylib \<Rightarrow> stdio_state \<Rightarrow> string \<Rightarrow> string \<Rightarrow> string
    \<Rightarrow> (error + json) option \<times> stdio_state" where
  "stdio_initialize L s client_name version protocol_version =
     (let rid = stdio_next_id s;
          s1 = s\<lparr>stdio_next_id := rid + 1\<rparr>;
          req = request_msg rid ''initialize''
                  (Some (initialize_params protocol_version client_name version));
          s2 = write_msg s1 (JObj req)
      in case await_response L s2 rid 10 of
           (None, s3) \<Rightarrow> (None, s3)
         | (Some (Inl e), s3) \<Rightarrow> (Some (Inl e), s3)
         | (Some (Inr resp), s3) \<Rightarrow>
             (case py_contains ''error'' resp of
                Inl e \<Rightarrow> (Some (Inl e), s3)
              | Inr True \<Rightarrow> (Some (Inl (InitializeFailed (Some resp))), s3)
              | Inr False \<Rightarrow> (Some (Inr resp), s3)))"

definition stdio_send_initialized :: "stdio_state \<Rightarrow> stdio_state" where
  "stdio_send_initialized s = write_msg s (JObj initialized_note)"

definition stdio_request :: "pylib \<Rightarrow> stdio_state \<Rightarrow> string \<Rightarrow> json option \<Rightarrow> real
    \<Rightarrow> (error + json) option \<times> stdio_state" where
  "stdio_request L s method params timeout =
     (let rid = stdio_next_id s;
          s1 = s\<lparr>stdio_next_id := rid + 1\<rparr>;
          req = request_msg rid method params;
          s2 = write_msg s1 (JObj req)
      in await_response L s2 rid timeout)"

definition stdio_tools_list :: "pylib \<Rightarrow> stdio_state \<Rightarrow> (error + json) option \<times> stdio_state" where
  "stdio_tools_list L s = stdio_request L s ''tools/list'' (Some (JObj [])) 30"

definition stdio_tools_call :: "pylib \<Rightarrow> stdio_state \<Rightarrow> string \<Rightarrow> json option \<Rightarrow> real
    \<Rightarrow> (error + json) option \<times> stdio_state" where
  "stdio_tools_call L s name arguments timeout =
     stdio_request L s ''tools/call'' (Some (tools_call_params name arguments)) timeout"

section \<open>The SSE client (\<^verbatim>\<open>e2e_tests/sse_client.py\<close>)\<close>

text \<open>
  The environment of one client. \<open>sse_wire\<close> is what the client did on its HTTP
  connections, in order; the connections are numbered in the order in which the client
  made them, from 0. \<open>sse_stream\<close> is the chunks \<^verbatim>\<open>readline()\<close> will still return on the
  response of the GET, with the time each arrives; \<open>sse_ending\<close> what follows them;
  \<open>sse_clock\<close> is \<^verbatim>\<open>time.time()\<close>.
\<close>

datatype sse_io =
    SentGET string "(string \<times> string) list"
  | SentPOST string "(string \<times> string) list" json

text \<open>\<open>ConnOpened n\<close>: \<^verbatim>\<open>http.client.HTTPConnection(host, port, timeout=30)\<close> makes
  connection \<open>n\<close>. \<open>ConnSent n r\<close>: \<^verbatim>\<open>request\<close> sends \<open>r\<close> on it. \<open>ConnDrained n\<close>:
  \<^verbatim>\<open>getresponse()\<close> and \<^verbatim>\<open>read()\<close> take its response to the end. \<open>ConnClosed n\<close>:
  \<^verbatim>\<open>close()\<close>.\<close>

datatype wire_event =
    ConnOpened nat
  | ConnSent nat sse_io
  | ConnDrained nat
  | ConnClosed nat

record sse_state =
  sse_protocol_version :: string
  sse_next_id :: int
  endpoint_path :: "string option"
  sse_wire :: "wire_event list"
  sse_stream :: "(real \<times> string) list"
  sse_ending :: stream_end
  sse_clock :: real

text \<open>The HTTP requests that left the client, in order, and the number of connections
  it has made.\<close>

fun wire_request :: "wire_event \<Rightarrow> sse_io option" where
  "wire_request (ConnSent n r) = Some r"
| "wire_request _ = None"

definition sse_sent :: "sse_state \<Rightarrow> sse_io list" where
  "sse_sent s = List.map_filter wire_request (sse_wire s)"

fun wire_opens :: "wire_event \<Rightarrow> bool" where
  "wire_opens (ConnOpened n) = True"
| "wire_opens _ = False"

definition conns_made :: "sse_state \<Rightarrow> nat" where
  "conns_made s = length (filter wire_opens (sse_wire s))"

text \<open>The response of the server to the GET of the constructor.\<close>

record sse_get_response =
  get_status :: int
  get_content_type :: "string option"
  get_stream :: "(real \<times> string) list"
  get_ending :: stream_end

text \<open>\<^verbatim>\<open>readline()\<close> on the response of the GET: the connection was made with
  \<^verbatim>\<open>timeout=30\<close>; the empty chunk is end of stream.\<close>

definition sse_readline :: "sse_state \<Rightarrow> (error + string) \<times> sse_state" where
  "sse_readline s =
     (case sse_stream s of
        (t, chunk) # rest \<Rightarrow>
          if t \<le> sse_clock s + 30
          then (Inr chunk, s\<lparr>sse_stream := rest, sse_clock := max (sse_clock s) t\<rparr>)
          else (Inl SocketTimeout, s\<lparr>sse_clock := sse_clock s + 30\<rparr>)
      | [] \<Rightarrow>
          (case sse_ending s of
             Closed t \<Rightarrow>
               if t \<le> sse_clock s + 30
               then (Inr [], s\<lparr>sse_clock := max (sse_clock s) t\<rparr>)
               else (Inl SocketTimeout, s\<lparr>sse_clock := sse_clock s + 30\<rparr>)
           | Silent \<Rightarrow> (Inl SocketTimeout, s\<lparr>sse_clock := sse_clock s + 30\<rparr>)))"

text \<open>The \<^verbatim>\<open>while True\<close> loop of \<^verbatim>\<open>_open_sse\<close> (lines 36 to 51), with its two local
  variables; it returns \<^verbatim>\<open>endpoint\<close>.\<close>

function open_sse_loop :: "pylib \<Rightarrow> string option \<Rightarrow> string \<Rightarrow> sse_state
    \<Rightarrow> (error + string) \<times> sse_state" where
  "open_sse_loop L event_type data_buf s =
     (case sse_readline s of
        (Inl e, s1) \<Rightarrow> (Inl e, s1)
      | (Inr chunk, s1) \<Rightarrow>
          if chunk = [] then (Inl SseStreamEnded, s1)
          else let line = rstrip_crlf chunk in
            if startswith line ''event:'' then
              (case utf8_decode L (bytes_lstrip (drop 6 line)) of
                 None \<Rightarrow> (Inl UnicodeDecodeError, s1)
               | Some t \<Rightarrow> open_sse_loop L (Some t) data_buf s1)
            else if startswith line ''data:'' then
              open_sse_loop L event_type (data_buf @ bytes_lstrip (drop 5 line) @ [CHR 0x0A]) s1
            else if line = [] then
              (if event_type = Some ''endpoint'' then
                 (case utf8_decode L data_buf of
                    None \<Rightarrow> (Inl UnicodeDecodeError, s1)
                  | Some t \<Rightarrow> (Inr (str_strip t), s1))
               else open_sse_loop L None [] s1)
            else open_sse_loop L event_type data_buf s1)"
  by pat_completeness auto
termination
proof (relation "measure (\<lambda>(L, event_type, data_buf, s). length (sse_stream s))")
  show "wf (measure (\<lambda>(L, event_type, data_buf, s). length (sse_stream s)))" by simp
next
  fix s :: sse_state and x1 s1 chunk
  assume "(x1, s1) = sse_readline s" and "x1 = Inr chunk" and "chunk \<noteq> []"
  then have "sse_readline s = (Inr chunk, s1)" by simp
  with \<open>chunk \<noteq> []\<close> have less: "length (sse_stream s1) < length (sse_stream s)"
    by (auto simp: sse_readline_def split: if_splits list.splits stream_end.splits)
  fix L :: pylib and event_type :: "string option" and data_buf :: string
  show "\<And>t. ((L, Some t, data_buf, s1), (L, event_type, data_buf, s))
      \<in> measure (\<lambda>(L, event_type, data_buf, s). length (sse_stream s))"
    using less by simp
  show "\<And>line. ((L, event_type, data_buf @ bytes_lstrip (drop 5 line) @ [CHR 0x0A], s1),
            (L, event_type, data_buf, s))
      \<in> measure (\<lambda>(L, event_type, data_buf, s). length (sse_stream s))"
    using less by simp
  show "((L, None, [], s1), (L, event_type, data_buf, s))
      \<in> measure (\<lambda>(L, event_type, data_buf, s). length (sse_stream s))"
    using less by simp
  show "((L, event_type, data_buf, s1), (L, event_type, data_buf, s))
      \<in> measure (\<lambda>(L, event_type, data_buf, s). length (sse_stream s))"
    using less by simp
qed

text \<open>\<^verbatim>\<open>__init__\<close> and \<^verbatim>\<open>_open_sse\<close>: the GET, the check of its response, the loop, and the
  assignment of \<^verbatim>\<open>_endpoint_path\<close>. When the constructor raises there is no client.\<close>

definition sse_connect :: "pylib \<Rightarrow> string \<Rightarrow> real \<Rightarrow> sse_get_response \<Rightarrow> error + sse_state" where
  "sse_connect L pv now g =
     (let s0 = \<lparr>sse_protocol_version = pv, sse_next_id = 1, endpoint_path = None,
                sse_wire = [ConnOpened 0,
                            ConnSent 0 (SentGET ''/'' [(''Accept'', ''text/event-stream'')])],
                sse_stream = get_stream g, sse_ending = get_ending g, sse_clock = now\<rparr>;
          ctype = media_type (get_content_type g)
      in if get_status g = 200 \<and> ctype = ''text/event-stream'' then
           (case open_sse_loop L None [] s0 of
              (Inl e, s1) \<Rightarrow> Inl e
            | (Inr endpoint, s1) \<Rightarrow>
                if endpoint = [] then Inl NoEndpoint
                else Inr (s1\<lparr>endpoint_path := Some endpoint\<rparr>))
         else Inl (SseGetFailed (get_status g)))"

text \<open>\<^verbatim>\<open>_post\<close>: a new connection, the request on it, its response read to the end, the
  connection closed, and then the check of the status. The last argument is the status of
  the server's response.\<close>

definition sse_post :: "sse_state \<Rightarrow> (string \<times> json) list \<Rightarrow> int \<Rightarrow> (error + unit) \<times> sse_state" where
  "sse_post s payload post_status =
     (let path = (case endpoint_path s of
                    None \<Rightarrow> ''/''
                  | Some ep \<Rightarrow> if ep = [] then ''/'' else ep);
          n = conns_made s;
          s1 = s\<lparr>sse_wire := sse_wire s
                  @ [ConnOpened n,
                     ConnSent n (SentPOST path [(''Content-Type'', ''application/json'')]
                                   (JObj payload)),
                     ConnDrained n,
                     ConnClosed n]\<rparr>
      in if post_status = 200 \<or> post_status = 202 \<or> post_status = 204
         then (Inr (), s1)
         else (Inl (SsePostFailed post_status), s1))"

text \<open>The \<^verbatim>\<open>for m in msg\<close> loop of the SSE client's \<^verbatim>\<open>_await_response\<close>.\<close>

fun sse_scan_batch :: "int \<Rightarrow> json list \<Rightarrow> json option" where
  "sse_scan_batch req_id [] = None"
| "sse_scan_batch req_id (m # ms) =
     (case m of
        JObj kv \<Rightarrow> if py_eq (dict_get kv ''id'') (JInt req_id) then Some m
                   else sse_scan_batch req_id ms
      | _ \<Rightarrow> sse_scan_batch req_id ms)"

text \<open>The \<^verbatim>\<open>while time.time() - start < timeout\<close> loop of \<^verbatim>\<open>_await_response\<close>.\<close>

function sse_await_loop :: "pylib \<Rightarrow> int \<Rightarrow> real \<Rightarrow> real \<Rightarrow> string \<Rightarrow> sse_state
    \<Rightarrow> (error + json) \<times> sse_state" where
  "sse_await_loop L req_id start timeout buf s =
     (if sse_clock s - start < timeout then
        (case sse_readline s of
           (Inl e, s1) \<Rightarrow> (Inl e, s1)
         | (Inr chunk, s1) \<Rightarrow>
             if chunk = [] then (Inl Timeout, s1)
             else let line = rstrip_crlf chunk in
               if startswith line ''data:'' then
                 sse_await_loop L req_id start timeout
                   (buf @ bytes_lstrip (drop 5 line) @ [CHR 0x0A]) s1
               else if line = [] then
                 (if buf \<noteq> [] then
                    (case loads_bytes L buf of
                       Some (JObj kv) \<Rightarrow>
                         if py_eq (dict_get kv ''id'') (JInt req_id) then (Inr (JObj kv), s1)
                         else sse_await_loop L req_id start timeout [] s1
                     | Some (JArr ms) \<Rightarrow>
                         (case sse_scan_batch req_id ms of
                            Some m \<Rightarrow> (Inr m, s1)
                          | None \<Rightarrow> sse_await_loop L req_id start timeout [] s1)
                     | _ \<Rightarrow> sse_await_loop L req_id start timeout [] s1)
                  else sse_await_loop L req_id start timeout buf s1)
               else sse_await_loop L req_id start timeout buf s1)
      else (Inl Timeout, s))"
  by pat_completeness auto
termination
  apply (relation "measure (\<lambda>(L, req_id, start, timeout, buf, s). length (sse_stream s))")
   apply simp
  apply (auto simp: sse_readline_def split: if_splits list.splits stream_end.splits)
  done

definition sse_await_response :: "pylib \<Rightarrow> sse_state \<Rightarrow> int \<Rightarrow> real \<Rightarrow> (error + json) \<times> sse_state" where
  "sse_await_response L s req_id timeout = sse_await_loop L req_id (sse_clock s) timeout [] s"

definition sse_initialize :: "pylib \<Rightarrow> sse_state \<Rightarrow> string \<Rightarrow> string \<Rightarrow> int
    \<Rightarrow> (error + json) \<times> sse_state" where
  "sse_initialize L s client_name version post_status =
     (let rid = sse_next_id s;
          s1 = s\<lparr>sse_next_id := rid + 1\<rparr>;
          req = request_msg rid ''initialize''
                  (Some (initialize_params (sse_protocol_version s1) client_name version))
      in case sse_post s1 req post_status of
           (Inl e, s2) \<Rightarrow> (Inl e, s2)
         | (Inr _, s2) \<Rightarrow> sse_await_response L s2 rid 30)"

definition sse_send_initialized :: "sse_state \<Rightarrow> int \<Rightarrow> (error + unit) \<times> sse_state" where
  "sse_send_initialized s post_status = sse_post s initialized_note post_status"

definition sse_request :: "pylib \<Rightarrow> sse_state \<Rightarrow> string \<Rightarrow> json option \<Rightarrow> int
    \<Rightarrow> (error + json) \<times> sse_state" where
  "sse_request L s method params post_status =
     (let rid = sse_next_id s;
          s1 = s\<lparr>sse_next_id := rid + 1\<rparr>;
          req = request_msg rid method params
      in case sse_post s1 req post_status of
           (Inl e, s2) \<Rightarrow> (Inl e, s2)
         | (Inr _, s2) \<Rightarrow> sse_await_response L s2 rid 30)"

definition sse_tools_list :: "pylib \<Rightarrow> sse_state \<Rightarrow> int \<Rightarrow> (error + json) \<times> sse_state" where
  "sse_tools_list L s post_status = sse_request L s ''tools/list'' (Some (JObj [])) post_status"

definition sse_tools_call :: "pylib \<Rightarrow> sse_state \<Rightarrow> string \<Rightarrow> json option \<Rightarrow> int
    \<Rightarrow> (error + json) \<times> sse_state" where
  "sse_tools_call L s name arguments post_status =
     sse_request L s ''tools/call'' (Some (tools_call_params name arguments)) post_status"

section \<open>Callers\<close>

text \<open>
  A caller is any sequence of method calls on one client; an exception ends the call that
  raised it, not the client. For the HTTP client each call comes with the server's reply
  to its POST, for the SSE client with the status of the response to its POST.
\<close>

datatype stdio_call =
    StdioInitialize string string string
  | StdioSendInitialized
  | StdioRequest string "json option" real
  | StdioToolsList
  | StdioToolsCall string "json option" real

text \<open>A call on the stdio client returns or raises, or never returns; the flag says
  which. A caller gets no further than a call that never returns.\<close>

fun stdio_do :: "pylib \<Rightarrow> stdio_state \<Rightarrow> stdio_call \<Rightarrow> bool \<times> stdio_state" where
  "stdio_do L s (StdioInitialize n v pv) =
     (case stdio_initialize L s n v pv of (r, s') \<Rightarrow> (r \<noteq> None, s'))"
| "stdio_do L s StdioSendInitialized = (True, stdio_send_initialized s)"
| "stdio_do L s (StdioRequest m ps t) =
     (case stdio_request L s m ps t of (r, s') \<Rightarrow> (r \<noteq> None, s'))"
| "stdio_do L s StdioToolsList =
     (case stdio_tools_list L s of (r, s') \<Rightarrow> (r \<noteq> None, s'))"
| "stdio_do L s (StdioToolsCall n a t) =
     (case stdio_tools_call L s n a t of (r, s') \<Rightarrow> (r \<noteq> None, s'))"

fun stdio_run :: "pylib \<Rightarrow> stdio_state \<Rightarrow> stdio_call list \<Rightarrow> stdio_state" where
  "stdio_run L s [] = s"
| "stdio_run L s (c # cs) =
     (case stdio_do L s c of
        (True, s') \<Rightarrow> stdio_run L s' cs
      | (False, s') \<Rightarrow> s')"

text \<open>The calls of a sequence that the caller gets to make.\<close>

fun stdio_begun :: "pylib \<Rightarrow> stdio_state \<Rightarrow> stdio_call list \<Rightarrow> stdio_call list" where
  "stdio_begun L s [] = []"
| "stdio_begun L s (c # cs) =
     c # (case stdio_do L s c of
            (True, s') \<Rightarrow> stdio_begun L s' cs
          | (False, s') \<Rightarrow> [])"

datatype http_call =
    HttpInitialize string string
  | HttpSendInitialized
  | HttpRequest string "json option"
  | HttpToolsList
  | HttpToolsCall string "json option"

fun http_do :: "pylib \<Rightarrow> http_state \<Rightarrow> http_call \<times> http_reply \<Rightarrow> http_state" where
  "http_do L c (HttpInitialize n v, r) = snd (http_initialize L c n v r)"
| "http_do L c (HttpSendInitialized, r) = snd (http_send_initialized L c r)"
| "http_do L c (HttpRequest m ps, r) = snd (http_request L c m ps r)"
| "http_do L c (HttpToolsList, r) = snd (http_tools_list L c r)"
| "http_do L c (HttpToolsCall n a, r) = snd (http_tools_call L c n a r)"

fun http_run :: "pylib \<Rightarrow> http_state \<Rightarrow> (http_call \<times> http_reply) list \<Rightarrow> http_state" where
  "http_run L c [] = c"
| "http_run L c (x # xs) = http_run L (http_do L c x) xs"

datatype sse_call =
    SseInitialize string string
  | SseSendInitialized
  | SseRequest string "json option"
  | SseToolsList
  | SseToolsCall string "json option"

fun sse_do :: "pylib \<Rightarrow> sse_state \<Rightarrow> sse_call \<times> int \<Rightarrow> sse_state" where
  "sse_do L s (SseInitialize n v, st) = snd (sse_initialize L s n v st)"
| "sse_do L s (SseSendInitialized, st) = snd (sse_send_initialized s st)"
| "sse_do L s (SseRequest m ps, st) = snd (sse_request L s m ps st)"
| "sse_do L s (SseToolsList, st) = snd (sse_tools_list L s st)"
| "sse_do L s (SseToolsCall n a, st) = snd (sse_tools_call L s n a st)"

fun sse_run :: "pylib \<Rightarrow> sse_state \<Rightarrow> (sse_call \<times> int) list \<Rightarrow> sse_state" where
  "sse_run L s [] = s"
| "sse_run L s (x # xs) = sse_run L (sse_do L s x) xs"

text \<open>The calls that build a request with an identifier: all but \<^verbatim>\<open>send_initialized\<close>.\<close>

fun stdio_numbered :: "stdio_call \<Rightarrow> bool" where
  "stdio_numbered StdioSendInitialized = False"
| "stdio_numbered _ = True"

fun http_numbered :: "http_call \<Rightarrow> bool" where
  "http_numbered HttpSendInitialized = False"
| "http_numbered _ = True"

fun sse_numbered :: "sse_call \<Rightarrow> bool" where
  "sse_numbered SseSendInitialized = False"
| "sse_numbered _ = True"

text \<open>The identifier a message on the wire carries, and the identifiers of a log in order.\<close>

fun msg_id :: "json \<Rightarrow> int option" where
  "msg_id (JObj kv) = (case map_of kv ''id'' of Some (JInt n) \<Rightarrow> Some n | _ \<Rightarrow> None)"
| "msg_id _ = None"

definition stdio_ids :: "stdio_state \<Rightarrow> int list" where
  "stdio_ids s = List.map_filter msg_id (written s)"

definition http_ids :: "http_state \<Rightarrow> int list" where
  "http_ids c = List.map_filter (\<lambda>(hs, m). msg_id m) (http_posted c)"

fun sse_io_id :: "sse_io \<Rightarrow> int option" where
  "sse_io_id (SentGET path hs) = None"
| "sse_io_id (SentPOST path hs m) = msg_id m"

definition sse_ids :: "sse_state \<Rightarrow> int list" where
  "sse_ids s = List.map_filter sse_io_id (sse_sent s)"

text \<open>Two states of the SSE client that differ at most in the stream and the clock.\<close>

text \<open>What a request on a connection of its own leaves on the wire.\<close>

definition own_connection :: "nat \<Rightarrow> sse_io \<Rightarrow> wire_event list" where
  "own_connection n r = [ConnOpened n, ConnSent n r, ConnDrained n, ConnClosed n]"

definition sse_same :: "sse_state \<Rightarrow> sse_state \<Rightarrow> bool" where
  "sse_same s s' = (sse_wire s' = sse_wire s \<and> sse_next_id s' = sse_next_id s \<and>
     endpoint_path s' = endpoint_path s \<and> sse_protocol_version s' = sse_protocol_version s)"

text \<open>The first non-empty \<^verbatim>\<open>Mcp-Session-Id\<close> header among the replies of a server, or the
  empty text when no reply carries one.\<close>

fun first_sid :: "http_reply list \<Rightarrow> string" where
  "first_sid [] = []"
| "first_sid (RaisesBadStatusLine e # rs) = first_sid rs"
| "first_sid (Responds resp # rs) =
     (case mcp_session_id resp of
        None \<Rightarrow> first_sid rs
      | Some sid \<Rightarrow> if sid = [] then first_sid rs else sid)"

text \<open>The session header of a response passes the check of lines 54 to 59.\<close>

definition session_accepts :: "http_state \<Rightarrow> http_response \<Rightarrow> bool" where
  "session_accepts c resp =
     (case mcp_session_id resp of
        None \<Rightarrow> True
      | Some sid \<Rightarrow> sid = [] \<or> http_session_id c = [] \<or> sid = http_session_id c)"

section \<open>The event stream as a sequence of events\<close>

text \<open>
  The loop of lines 79 to 120 seen in two steps. \<open>event_buffers\<close> is what \<^verbatim>\<open>buf\<close> holds
  at each blank line where it is not empty, one buffer per event; \<open>match_event\<close> is what
  lines 92 to 115 do with one such buffer; \<open>first_reply\<close> goes through the events in order
  and stops at the first one that raises or yields a message.
\<close>

fun event_buffers :: "string \<Rightarrow> string list \<Rightarrow> string list" where
  "event_buffers buf [] = []"
| "event_buffers buf (chunk # rest) =
     (if chunk = [] then []
      else let line = rstrip_crlf chunk in
        if startswith line ''data:'' then
          event_buffers (buf @ bytes_lstrip (drop 5 line) @ [CHR 0x0A]) rest
        else if line = [] then
          (if buf = [] then event_buffers buf rest else buf # event_buffers [] rest)
        else event_buffers buf rest)"

definition match_event :: "pylib \<Rightarrow> bool \<Rightarrow> json \<Rightarrow> string \<Rightarrow> error + json option" where
  "match_event L expect_response target_id buf =
     (case loads_bytes L buf of
        Some (JArr ms) \<Rightarrow> scan_batch expect_response target_id ms
      | Some (JObj kv) \<Rightarrow>
          (if expect_response \<and> py_eq (dict_get kv ''id'') target_id then Inr (Some (JObj kv))
           else Inr None)
      | _ \<Rightarrow> Inr None)"

fun first_reply :: "pylib \<Rightarrow> bool \<Rightarrow> json \<Rightarrow> string list \<Rightarrow> error + json option" where
  "first_reply L expect_response target_id [] = Inr None"
| "first_reply L expect_response target_id (b # bs) =
     (case match_event L expect_response target_id b of
        Inl e \<Rightarrow> Inl e
      | Inr (Some m) \<Rightarrow> Inr (Some m)
      | Inr None \<Rightarrow> first_reply L expect_response target_id bs)"

text \<open>A decoded message is an object whose \<^verbatim>\<open>id\<close> equals the awaited one.\<close>

fun answers :: "json \<Rightarrow> json \<Rightarrow> bool" where
  "answers target_id (JObj kv) = py_eq (dict_get kv ''id'') target_id"
| "answers target_id _ = False"

text \<open>\<^verbatim>\<open>isinstance(m, dict)\<close>.\<close>

fun is_object :: "json \<Rightarrow> bool" where
  "is_object (JObj kv) = True"
| "is_object _ = False"

section \<open>Data lines\<close>

text \<open>
  A \<^verbatim>\<open>data:\<close> line as \<^verbatim>\<open>readline()\<close> returns it: the prefix, some whitespace, a payload,
  LF. The payload is \<open>plain\<close> when it neither starts with whitespace nor ends with CR or
  LF, so that the whitespace before it and the line end after it are all there is.
\<close>

definition data_chunk :: "string \<Rightarrow> string \<Rightarrow> string" where
  "data_chunk w p = ''data:'' @ w @ p @ [CHR 0x0A]"

fun plain :: "string \<Rightarrow> bool" where
  "plain [] = True"
| "plain (c # cs) =
     (if bytes_ws c then False
      else if last (c # cs) = CHR 0x0D then False
      else if last (c # cs) = CHR 0x0A then False
      else True)"

text \<open>The spec's words for the payload of a data line: the prefix and one optional
  leading space stripped.\<close>

definition spec_data_payload :: "string \<Rightarrow> string" where
  "spec_data_payload line =
     (case drop 5 line of
        [] \<Rightarrow> []
      | c # cs \<Rightarrow> if c = CHR 0x20 then cs else c # cs)"


section \<open>A sample library for concrete runs\<close>

text \<open>A decoder that knows the documents used in the concrete runs below, and a UTF-8
  decoder for ASCII bytes.\<close>

definition sample_loads :: "string \<Rightarrow> json option" where
  \<open>sample_loads t =
     (if t = ''{"a":1}\<newline>'' then Some (JObj [(''a'', JInt 1)])
      else if t = ''{"jsonrpc":"2.0","id":1,"result":{}}\<newline>''
        then Some (JObj [(''jsonrpc'', JStr ''2.0''), (''id'', JInt 1), (''result'', JObj [])])
      else if t = ''[{"jsonrpc":"2.0","id":1,"result":{}},{"jsonrpc":"2.0","method":"notifications/x"}]\<newline>''
        then Some (JArr [JObj [(''jsonrpc'', JStr ''2.0''), (''id'', JInt 1), (''result'', JObj [])],
                         JObj [(''jsonrpc'', JStr ''2.0''), (''method'', JStr ''notifications/x'')]])
      else if t = ''[1,{"jsonrpc":"2.0","id":1,"result":{}}]\<newline>''
        then Some (JArr [JInt 1,
                         JObj [(''jsonrpc'', JStr ''2.0''), (''id'', JInt 1), (''result'', JObj [])]])
      else if t = ''{}'' then Some (JObj [])
      else None)\<close>

definition sample_lib :: pylib where
  "sample_lib =
     \<lparr>json_loads = sample_loads,
      utf8_decode = (\<lambda>b. if list_all (\<lambda>c. (of_char c :: nat) < 128) b then Some b else None),
      json_loads_bytes =
        (\<lambda>b. if list_all (\<lambda>c. (of_char c :: nat) < 128) b
             then (case sample_loads b of None \<Rightarrow> Inl JSONDecodeError | Some j \<Rightarrow> Inr j)
             else Inl UnicodeDecodeError)\<rparr>"

text \<open>A server of the SSE transport that announces its endpoint at once and then answers
  the request with identifier 1.\<close>

definition sample_get :: sse_get_response where
  \<open>sample_get =
     \<lparr>get_status = 200, get_content_type = Some ''text/event-stream; charset=utf-8'',
      get_stream = [(0, ''event: endpoint\<newline>''), (0, ''data: /messages?sessionid=abc\<newline>''),
                    (0, ''\<newline>''),
                    (1, ''event: message\<newline>''),
                    (1, ''data: {"jsonrpc":"2.0","id":1,"result":{}}\<newline>''),
                    (1, ''\<newline>'')],
      get_ending = Silent\<rparr>\<close>

definition sample_sse :: sse_state where
  \<open>sample_sse =
     \<lparr>sse_protocol_version = ''2024-11-05'', sse_next_id = 1,
      endpoint_path = Some ''/messages?sessionid=abc'',
      sse_wire = [ConnOpened 0, ConnSent 0 (SentGET ''/'' [(''Accept'', ''text/event-stream'')])],
      sse_stream = [(1, ''event: message\<newline>''),
                    (1, ''data: {"jsonrpc":"2.0","id":1,"result":{}}\<newline>''),
                    (1, ''\<newline>'')],
      sse_ending = Silent, sse_clock = 0\<rparr>\<close>

section \<open>Properties\<close>

declare await_loop.simps [simp del]
declare open_sse_loop.simps [simp del]
declare sse_await_loop.simps [simp del]

subsection \<open>What the blocking reads leave untouched\<close>

lemma select_readable_frame:
  "select_readable s t = (b, s1) \<Longrightarrow>
     written s1 = written s \<and> stdio_next_id s1 = stdio_next_id s \<and>
     notifications s1 = notifications s \<and> buffered s1 = buffered s \<and>
     incoming s1 = incoming s \<and> ending s1 = ending s"
  by (auto simp: select_readable_def split: list.splits if_splits stream_end.splits)

lemma readline_frame:
  "readline s = (r, s1) \<Longrightarrow>
     written s1 = written s \<and> stdio_next_id s1 = stdio_next_id s \<and>
     notifications s1 = notifications s \<and> ending s1 = ending s"
  by (auto simp: readline_def split: option.splits prod.splits)

lemma read_msgs_once_frame:
  "read_msgs_once L s t = (r, s1) \<Longrightarrow>
     written s1 = written s \<and> stdio_next_id s1 = stdio_next_id s \<and>
     notifications s1 = notifications s \<and> ending s1 = ending s"
proof -
  assume rd: "read_msgs_once L s t = (r, s1)"
  show ?thesis
  proof (cases "t < 0")
    case True
    with rd show ?thesis by (simp add: read_msgs_once_def)
  next
    case False
    obtain b sa where sel: "select_readable s t = (b, sa)" by (cases "select_readable s t")
    note fa = select_readable_frame[OF sel]
    show ?thesis
    proof (cases b)
      case False
      with \<open>\<not> t < 0\<close> rd sel fa show ?thesis by (auto simp: read_msgs_once_def)
    next
      case True
      obtain q sb where rl: "readline sa = (q, sb)" by (cases "readline sa")
      note fb = readline_frame[OF rl]
      have "s1 = sb"
        using \<open>\<not> t < 0\<close> rd sel True rl
        by (auto simp: read_msgs_once_def split: option.splits if_splits json.splits)
      with fa fb show ?thesis by simp
    qed
  qed
qed

lemma await_loop_frame:
  "written (snd (await_loop L req_id deadline s)) = written s \<and>
   stdio_next_id (snd (await_loop L req_id deadline s)) = stdio_next_id s \<and>
   ending (snd (await_loop L req_id deadline s)) = ending s"
proof (induction L req_id deadline s rule: await_loop.induct)
  case (1 L req_id deadline s)
  show ?case
  proof (cases "clock s < deadline")
    case False
    then show ?thesis by (simp add: await_loop.simps[of L req_id deadline s])
  next
    case True
    obtain r s1 where rd: "read_msgs_once L s (max 0 (deadline - clock s)) = (r, s1)"
      by (cases "read_msgs_once L s (max 0 (deadline - clock s))")
    note fr = read_msgs_once_frame[OF rd]
    show ?thesis
    proof (cases r)
      case None
      with True rd fr show ?thesis by (simp add: await_loop.simps[of L req_id deadline s])
    next
      case (Some x)
      show ?thesis
      proof (cases x)
        case (Inl e)
        with True rd fr Some show ?thesis
          by (simp add: await_loop.simps[of L req_id deadline s])
      next
        case (Inr msgs)
        obtain q ns where sc: "scan_msgs req_id (notifications s1) msgs = (q, ns)"
          by (cases "scan_msgs req_id (notifications s1) msgs")
        show ?thesis
        proof (cases q)
          case (Inl e)
          with True rd fr Some \<open>x = Inr msgs\<close> sc show ?thesis
            by (simp add: await_loop.simps[of L req_id deadline s])
        next
          case (Inr mo)
          show ?thesis
          proof (cases mo)
            case None
            have "written (snd (await_loop L req_id deadline (s1\<lparr>notifications := ns\<rparr>)))
                    = written (s1\<lparr>notifications := ns\<rparr>) \<and>
                  stdio_next_id (snd (await_loop L req_id deadline (s1\<lparr>notifications := ns\<rparr>)))
                    = stdio_next_id (s1\<lparr>notifications := ns\<rparr>) \<and>
                  ending (snd (await_loop L req_id deadline (s1\<lparr>notifications := ns\<rparr>)))
                    = ending (s1\<lparr>notifications := ns\<rparr>)"
              using "1.IH"[OF True rd[symmetric] Some \<open>x = Inr msgs\<close> sc[symmetric]
                      \<open>q = Inr mo\<close> None] .
            with True rd fr Some \<open>x = Inr msgs\<close> sc Inr None show ?thesis
              by (simp add: await_loop.simps[of L req_id deadline s])
          next
            case (Some m)
            with True rd fr \<open>r = Some x\<close> \<open>x = Inr msgs\<close> sc Inr show ?thesis
              by (simp add: await_loop.simps[of L req_id deadline s])
          qed
        qed
      qed
    qed
  qed
qed


subsection \<open>Identifiers on the wire\<close>

lemma msg_id_request: "msg_id (JObj (request_msg rid m p)) = Some rid"
  by (simp add: request_msg_def)

lemma msg_id_note: "msg_id (JObj initialized_note) = None"
  by (simp add: initialized_note_def)

lemma stdio_request_log:
  "written (snd (stdio_request L s m p t)) = written s @ [JObj (request_msg (stdio_next_id s) m p)] \<and>
   stdio_next_id (snd (stdio_request L s m p t)) = stdio_next_id s + 1"
  by (simp add: stdio_request_def Let_def await_response_def await_loop_frame write_msg_def)

lemma stdio_initialize_log:
  "written (snd (stdio_initialize L s n v pv))
     = written s @ [JObj (request_msg (stdio_next_id s) ''initialize'' (Some (initialize_params pv n v)))] \<and>
   stdio_next_id (snd (stdio_initialize L s n v pv)) = stdio_next_id s + 1"
proof -
  let ?s2 = "write_msg (s\<lparr>stdio_next_id := stdio_next_id s + 1\<rparr>)
               (JObj (request_msg (stdio_next_id s) ''initialize'' (Some (initialize_params pv n v))))"
  obtain r s3 where aw: "await_response L ?s2 (stdio_next_id s) 10 = (r, s3)"
    by (cases "await_response L ?s2 (stdio_next_id s) 10")
  have fr: "written s3 = written ?s2 \<and> stdio_next_id s3 = stdio_next_id ?s2"
    using await_loop_frame[of L "stdio_next_id s" "clock ?s2 + 10" ?s2] aw
    by (simp add: await_response_def)
  have "snd (stdio_initialize L s n v pv) = s3"
    using aw by (simp add: stdio_initialize_def Let_def split: option.splits sum.splits bool.splits)
  with fr show ?thesis by (simp add: write_msg_def)
qed

lemma map_filter_snoc: "List.map_filter f (xs @ [x]) = List.map_filter f xs @ (case f x of None \<Rightarrow> [] | Some y \<Rightarrow> [y])"
  by (simp add: List.map_filter_def split: option.splits)

lemma stdio_do_ids:
  "stdio_ids (snd (stdio_do L s c))
     = stdio_ids s @ (if stdio_numbered c then [stdio_next_id s] else []) \<and>
   stdio_next_id (snd (stdio_do L s c)) = stdio_next_id s + (if stdio_numbered c then 1 else 0)"
  by (cases c)
     (simp_all add: stdio_ids_def stdio_request_log stdio_initialize_log stdio_tools_list_def
        stdio_tools_call_def stdio_send_initialized_def write_msg_def map_filter_snoc
        msg_id_request msg_id_note case_prod_beta del: msg_id.simps)

lemma stdio_run_ids:
  "stdio_ids (stdio_run L s cs)
     = stdio_ids s @ [stdio_next_id s ..
         stdio_next_id s + int (length (filter stdio_numbered (stdio_begun L s cs))) - 1] \<and>
   stdio_next_id (stdio_run L s cs)
     = stdio_next_id s + int (length (filter stdio_numbered (stdio_begun L s cs)))"
proof (induction cs arbitrary: s)
  case Nil
  then show ?case by simp
next
  case (Cons c cs)
  obtain b s' where d: "stdio_do L s c = (b, s')" by (cases "stdio_do L s c")
  from stdio_do_ids[of L s c] d
  have ids: "stdio_ids s' = stdio_ids s @ (if stdio_numbered c then [stdio_next_id s] else [])"
    and nx: "stdio_next_id s' = stdio_next_id s + (if stdio_numbered c then 1 else 0)"
    by simp_all
  show ?case
  proof (cases b)
    case False
    with d ids nx show ?thesis by simp
  next
    case True
    show ?thesis
    proof (cases "stdio_numbered c")
      case num: True
      have "[stdio_next_id s] @ [stdio_next_id s + 1 ..
              stdio_next_id s + 1 + int (length (filter stdio_numbered (stdio_begun L s' cs))) - 1]
          = [stdio_next_id s ..
              stdio_next_id s + int (length (filter stdio_numbered (c # stdio_begun L s' cs))) - 1]"
        using num upto_rec1[of "stdio_next_id s"
                "stdio_next_id s + int (length (filter stdio_numbered (stdio_begun L s' cs)))"]
        by (simp add: add.commute)
      with True num d ids nx Cons.IH[of s'] show ?thesis by simp
    next
      case False
      with True d ids nx Cons.IH[of s'] show ?thesis by simp
    qed
  qed
qed

lemma send_and_read_log:
  "http_posted (fst (snd (send_and_read L c p e r))) = http_posted c @ [(headers c, JObj p)] \<and>
   http_next_id (fst (snd (send_and_read L c p e r))) = http_next_id c"
  by (simp add: send_and_read_def Let_def case_prod_beta split: http_reply.splits option.splits)

lemma http_request_state:
  "snd (http_request L c m p r)
     = fst (snd (send_and_read L (c\<lparr>http_next_id := http_next_id c + 1\<rparr>)
                   (request_msg (http_next_id c) m p) True r))"
  by (simp add: http_request_def Let_def case_prod_beta split: sum.splits option.splits)

lemma http_initialize_state:
  "snd (http_initialize L c n v r)
     = fst (snd (send_and_read L (c\<lparr>http_next_id := http_next_id c + 1\<rparr>)
                   (request_msg (http_next_id c) ''initialize''
                      (Some (initialize_params (http_protocol_version c) n v))) True r))"
  by (simp add: http_initialize_def Let_def case_prod_beta split: sum.splits option.splits bool.splits)

lemma http_send_initialized_state:
  "snd (http_send_initialized L c r) = fst (snd (send_and_read L c initialized_note False r))"
  by (simp add: http_send_initialized_def Let_def case_prod_beta split: sum.splits)

lemma http_do_ids:
  "http_ids (http_do L c (k, r)) = http_ids c @ (if http_numbered k then [http_next_id c] else []) \<and>
   http_next_id (http_do L c (k, r)) = http_next_id c + (if http_numbered k then 1 else 0)"
  by (cases k)
     (simp_all add: http_ids_def http_request_state http_initialize_state http_send_initialized_state
        send_and_read_log http_tools_list_def http_tools_call_def map_filter_snoc
        msg_id_request msg_id_note del: msg_id.simps)

lemma sse_readline_frame:
  "sse_readline s = (r, s1) \<Longrightarrow>
     sse_wire s1 = sse_wire s \<and> sse_next_id s1 = sse_next_id s \<and> endpoint_path s1 = endpoint_path s
     \<and> sse_protocol_version s1 = sse_protocol_version s"
  by (auto simp: sse_readline_def split: list.splits if_splits stream_end.splits)

lemma sse_await_loop_frame:
  "sse_same s (snd (sse_await_loop L req_id start timeout buf s))"
proof (induction L req_id start timeout buf s rule: sse_await_loop.induct)
  case (1 L req_id start timeout buf s)
  obtain r s1 where rd: "sse_readline s = (r, s1)" by (cases "sse_readline s")
  have fr: "sse_same s s1" using sse_readline_frame[OF rd] by (simp add: sse_same_def)
  have tr: "\<And>s2. sse_same s1 s2 \<Longrightarrow> sse_same s s2" using fr by (simp add: sse_same_def)
  show ?case
  proof (cases "sse_clock s - start < timeout")
    case False
    then show ?thesis by (simp add: sse_await_loop.simps[of L req_id start timeout buf s] sse_same_def)
  next
    case True
    show ?thesis
    proof (cases r)
      case (Inl e)
      with True rd fr show ?thesis by (simp add: sse_await_loop.simps[of L req_id start timeout buf s])
    next
      case (Inr chunk)
      show ?thesis
      proof (cases "chunk = []")
        case True
        with \<open>sse_clock s - start < timeout\<close> rd fr Inr show ?thesis
          by (simp add: sse_await_loop.simps[of L req_id start timeout buf s])
      next
        case False
        note ih = "1.IH"[OF \<open>sse_clock s - start < timeout\<close> rd[symmetric] Inr False refl]
        show ?thesis
          using \<open>sse_clock s - start < timeout\<close> rd fr Inr False ih tr
          by (simp add: sse_await_loop.simps[of L req_id start timeout buf s] Let_def
                   split: option.splits json.splits)
      qed
    qed
  qed
qed

lemma open_sse_loop_frame:
  "sse_same s (snd (open_sse_loop L event_type data_buf s))"
proof (induction L event_type data_buf s rule: open_sse_loop.induct)
  case (1 L event_type data_buf s)
  obtain r s1 where rd: "sse_readline s = (r, s1)" by (cases "sse_readline s")
  have fr: "sse_same s s1" using sse_readline_frame[OF rd] by (simp add: sse_same_def)
  have tr: "\<And>s2. sse_same s1 s2 \<Longrightarrow> sse_same s s2" using fr by (simp add: sse_same_def)
  show ?case
  proof (cases r)
    case (Inl e)
    with rd fr show ?thesis by (simp add: open_sse_loop.simps[of L event_type data_buf s])
  next
    case (Inr chunk)
    show ?thesis
    proof (cases "chunk = []")
      case True
      with rd fr Inr show ?thesis
        by (simp add: open_sse_loop.simps[of L event_type data_buf s])
    next
      case False
      note ih = "1.IH"[OF rd[symmetric] Inr False refl]
      show ?thesis
        using rd fr Inr False ih tr
        by (simp add: open_sse_loop.simps[of L event_type data_buf s] Let_def
                 split: option.splits)
    qed
  qed
qed

lemma sse_same_sent:
  "sse_same s s' \<Longrightarrow> sse_sent s' = sse_sent s \<and> conns_made s' = conns_made s"
  by (simp add: sse_same_def sse_sent_def conns_made_def)

lemma sse_post_log:
  "sse_wire (snd (sse_post s p st))
     = sse_wire s @ own_connection (conns_made s)
         (SentPOST (case endpoint_path s of None \<Rightarrow> ''/'' | Some ep \<Rightarrow> if ep = [] then ''/'' else ep)
            [(''Content-Type'', ''application/json'')] (JObj p)) \<and>
   sse_next_id (snd (sse_post s p st)) = sse_next_id s \<and>
   endpoint_path (snd (sse_post s p st)) = endpoint_path s \<and>
   sse_protocol_version (snd (sse_post s p st)) = sse_protocol_version s"
  by (simp add: sse_post_def Let_def own_connection_def)

lemma wire_own_connection:
  "sse_wire s' = sse_wire s @ own_connection (conns_made s) r \<Longrightarrow>
     sse_sent s' = sse_sent s @ [r] \<and> conns_made s' = Suc (conns_made s)"
  by (simp add: sse_sent_def conns_made_def own_connection_def List.map_filter_def)

lemma sse_request_wire:
  "sse_wire (snd (sse_request L s m p st))
     = sse_wire s @ own_connection (conns_made s)
         (SentPOST (case endpoint_path s of None \<Rightarrow> ''/'' | Some ep \<Rightarrow> if ep = [] then ''/'' else ep)
            [(''Content-Type'', ''application/json'')] (JObj (request_msg (sse_next_id s) m p))) \<and>
   sse_next_id (snd (sse_request L s m p st)) = sse_next_id s + 1 \<and>
   endpoint_path (snd (sse_request L s m p st)) = endpoint_path s"
proof -
  let ?s1 = "s\<lparr>sse_next_id := sse_next_id s + 1\<rparr>"
  let ?req = "request_msg (sse_next_id s) m p"
  obtain r s2 where po: "sse_post ?s1 ?req st = (r, s2)" by (cases "sse_post ?s1 ?req st")
  have l2: "sse_wire s2 = sse_wire s @ own_connection (conns_made s)
               (SentPOST (case endpoint_path s of None \<Rightarrow> ''/'' | Some ep \<Rightarrow> if ep = [] then ''/'' else ep)
                  [(''Content-Type'', ''application/json'')] (JObj ?req))
            \<and> sse_next_id s2 = sse_next_id s + 1 \<and> endpoint_path s2 = endpoint_path s"
    using sse_post_log[of ?s1 ?req st] po by (simp add: conns_made_def)
  show ?thesis
  proof (cases r)
    case (Inl e)
    with po l2 show ?thesis by (simp add: sse_request_def Let_def)
  next
    case (Inr u)
    have "sse_same s2 (snd (sse_await_response L s2 (sse_next_id s) 30))"
      by (simp add: sse_await_response_def sse_await_loop_frame)
    with po l2 Inr show ?thesis by (simp add: sse_request_def Let_def sse_same_def)
  qed
qed

lemma sse_request_log:
  "sse_sent (snd (sse_request L s m p st))
     = sse_sent s @ [SentPOST (case endpoint_path s of None \<Rightarrow> ''/'' | Some ep \<Rightarrow> if ep = [] then ''/'' else ep)
                       [(''Content-Type'', ''application/json'')] (JObj (request_msg (sse_next_id s) m p))] \<and>
   sse_next_id (snd (sse_request L s m p st)) = sse_next_id s + 1 \<and>
   endpoint_path (snd (sse_request L s m p st)) = endpoint_path s"
  using sse_request_wire[of L s m p st]
    wire_own_connection[of "snd (sse_request L s m p st)" s]
  by simp

lemma sse_initialize_wire:
  "sse_wire (snd (sse_initialize L s n v st))
     = sse_wire s @ own_connection (conns_made s)
         (SentPOST (case endpoint_path s of None \<Rightarrow> ''/'' | Some ep \<Rightarrow> if ep = [] then ''/'' else ep)
            [(''Content-Type'', ''application/json'')]
            (JObj (request_msg (sse_next_id s) ''initialize''
               (Some (initialize_params (sse_protocol_version s) n v))))) \<and>
   sse_next_id (snd (sse_initialize L s n v st)) = sse_next_id s + 1 \<and>
   endpoint_path (snd (sse_initialize L s n v st)) = endpoint_path s"
proof -
  let ?s1 = "s\<lparr>sse_next_id := sse_next_id s + 1\<rparr>"
  let ?req = "request_msg (sse_next_id s) ''initialize''
                          (Some (initialize_params (sse_protocol_version s) n v))"
  obtain r s2 where po: "sse_post ?s1 ?req st = (r, s2)" by (cases "sse_post ?s1 ?req st")
  have l2: "sse_wire s2 = sse_wire s @ own_connection (conns_made s)
               (SentPOST (case endpoint_path s of None \<Rightarrow> ''/'' | Some ep \<Rightarrow> if ep = [] then ''/'' else ep)
                  [(''Content-Type'', ''application/json'')] (JObj ?req))
            \<and> sse_next_id s2 = sse_next_id s + 1 \<and> endpoint_path s2 = endpoint_path s"
    using sse_post_log[of ?s1 ?req st] po by (simp add: conns_made_def)
  show ?thesis
  proof (cases r)
    case (Inl e)
    with po l2 show ?thesis by (simp add: sse_initialize_def Let_def)
  next
    case (Inr u)
    have "sse_same s2 (snd (sse_await_response L s2 (sse_next_id s) 30))"
      by (simp add: sse_await_response_def sse_await_loop_frame)
    with po l2 Inr show ?thesis by (simp add: sse_initialize_def Let_def sse_same_def)
  qed
qed

lemma sse_initialize_log:
  "sse_sent (snd (sse_initialize L s n v st))
     = sse_sent s @ [SentPOST (case endpoint_path s of None \<Rightarrow> ''/'' | Some ep \<Rightarrow> if ep = [] then ''/'' else ep)
                       [(''Content-Type'', ''application/json'')]
                       (JObj (request_msg (sse_next_id s) ''initialize''
                          (Some (initialize_params (sse_protocol_version s) n v))))] \<and>
   sse_next_id (snd (sse_initialize L s n v st)) = sse_next_id s + 1 \<and>
   endpoint_path (snd (sse_initialize L s n v st)) = endpoint_path s"
  using sse_initialize_wire[of L s n v st]
    wire_own_connection[of "snd (sse_initialize L s n v st)" s]
  by simp

lemma sse_post_sent:
  "sse_sent (snd (sse_post s p st))
     = sse_sent s @ [SentPOST (case endpoint_path s of None \<Rightarrow> ''/'' | Some ep \<Rightarrow> if ep = [] then ''/'' else ep)
                       [(''Content-Type'', ''application/json'')] (JObj p)]"
  using sse_post_log[of s p st] wire_own_connection[of "snd (sse_post s p st)" s]
  by simp


lemma http_run_ids:
  "http_ids (http_run L c xs)
     = http_ids c @ [http_next_id c .. http_next_id c + int (length (filter (\<lambda>x. http_numbered (fst x)) xs)) - 1] \<and>
   http_next_id (http_run L c xs) = http_next_id c + int (length (filter (\<lambda>x. http_numbered (fst x)) xs))"
proof (induction xs arbitrary: c)
  case Nil
  then show ?case by simp
next
  case (Cons x xs)
  obtain k r where x: "x = (k, r)" by (cases x)
  let ?n = "int (length (filter (\<lambda>x. http_numbered (fst x)) xs))"
  show ?case
  proof (cases "http_numbered k")
    case True
    have "[http_next_id c] @ [http_next_id c + 1 .. http_next_id c + 1 + ?n - 1]
        = [http_next_id c .. http_next_id c + (1 + ?n) - 1]"
      using upto_rec1[of "http_next_id c" "http_next_id c + ?n"]
      by (simp add: add.commute)
    with True Cons.IH[of "http_do L c (k, r)"] x show ?thesis
      by (simp add: http_do_ids)
  next
    case False
    with Cons.IH[of "http_do L c (k, r)"] x show ?thesis
      by (simp add: http_do_ids)
  qed
qed

lemma sse_do_ids:
  "sse_ids (sse_do L s (k, st)) = sse_ids s @ (if sse_numbered k then [sse_next_id s] else []) \<and>
   sse_next_id (sse_do L s (k, st)) = sse_next_id s + (if sse_numbered k then 1 else 0)"
  by (cases k)
     (simp_all add: sse_ids_def sse_request_log sse_initialize_log sse_post_log sse_post_sent
        sse_send_initialized_def sse_tools_list_def sse_tools_call_def map_filter_snoc
        msg_id_request msg_id_note del: msg_id.simps)

lemma sse_run_ids:
  "sse_ids (sse_run L s xs)
     = sse_ids s @ [sse_next_id s .. sse_next_id s + int (length (filter (\<lambda>x. sse_numbered (fst x)) xs)) - 1] \<and>
   sse_next_id (sse_run L s xs) = sse_next_id s + int (length (filter (\<lambda>x. sse_numbered (fst x)) xs))"
proof (induction xs arbitrary: s)
  case Nil
  then show ?case by simp
next
  case (Cons x xs)
  obtain k r where x: "x = (k, r)" by (cases x)
  let ?n = "int (length (filter (\<lambda>x. sse_numbered (fst x)) xs))"
  show ?case
  proof (cases "sse_numbered k")
    case True
    have "[sse_next_id s] @ [sse_next_id s + 1 .. sse_next_id s + 1 + ?n - 1]
        = [sse_next_id s .. sse_next_id s + (1 + ?n) - 1]"
      using upto_rec1[of "sse_next_id s" "sse_next_id s + ?n"]
      by (simp add: add.commute)
    with True Cons.IH[of "sse_do L s (k, r)"] x show ?thesis
      by (simp add: sse_do_ids)
  next
    case False
    with Cons.IH[of "sse_do L s (k, r)"] x show ?thesis
      by (simp add: sse_do_ids)
  qed
qed

lemma sse_connect_fresh:
  assumes "sse_connect L pv now g = Inr s"
  shows "sse_wire s = [ConnOpened 0, ConnSent 0 (SentGET ''/'' [(''Accept'', ''text/event-stream'')])]
       \<and> sse_sent s = [SentGET ''/'' [(''Accept'', ''text/event-stream'')]]
       \<and> sse_next_id s = 1"
proof -
  let ?s0 = "\<lparr>sse_protocol_version = pv, sse_next_id = 1, endpoint_path = None,
                sse_wire = [ConnOpened 0,
                            ConnSent 0 (SentGET ''/'' [(''Accept'', ''text/event-stream'')])],
                sse_stream = get_stream g, sse_ending = get_ending g, sse_clock = now\<rparr>"
  obtain r s1 where lp: "open_sse_loop L None [] ?s0 = (r, s1)"
    by (cases "open_sse_loop L None [] ?s0")
  have same: "sse_same ?s0 s1" using open_sse_loop_frame[of ?s0 L None "[]"] lp by simp
  from assms lp obtain ep where "s = s1\<lparr>endpoint_path := Some ep\<rparr>"
    by (auto simp: sse_connect_def Let_def split: if_splits sum.splits)
  with same show ?thesis by (simp add: sse_same_def sse_sent_def List.map_filter_def)
qed

lemma upto_sorted_distinct: "sorted_wrt (<) [a..b] \<and> distinct [a..b]"
  by simp


lemma sample_connect: "sse_connect sample_lib ''2024-11-05'' 0 sample_get = Inr sample_sse"
  by (simp add: sse_connect_def sample_get_def sample_sse_def sample_lib_def Let_def
        open_sse_loop.simps sse_readline_def rstrip_crlf_def startswith_def bytes_lstrip_def
        bytes_ws_def str_strip_def str_ws_def media_type_def)


subsection \<open>Tool calls and the handshake\<close>

text \<open>
  C1 (as the code has it). None of the three clients keeps a handshake state. A
  \<^verbatim>\<open>tools_list\<close> or \<^verbatim>\<open>tools_call\<close> issued in any state of a client, also before
  \<^verbatim>\<open>initialize\<close>, takes the next identifier and puts its request on the transport: the
  stdio client writes it to the server's input, the HTTP client and the SSE client POST it.
\<close>

theorem tool_calls_reach_transport:
  "written (snd (stdio_tools_list L s))
     = written s @ [JObj (request_msg (stdio_next_id s) ''tools/list'' (Some (JObj [])))]
   \<and> written (snd (stdio_tools_call L s name arguments t))
     = written s @ [JObj (request_msg (stdio_next_id s) ''tools/call''
                            (Some (tools_call_params name arguments)))]
   \<and> http_posted (snd (http_tools_list L c r))
     = http_posted c @ [(headers c,
          JObj (request_msg (http_next_id c) ''tools/list'' (Some (JObj []))))]
   \<and> http_posted (snd (http_tools_call L c name arguments r))
     = http_posted c @ [(headers c,
          JObj (request_msg (http_next_id c) ''tools/call''
                  (Some (tools_call_params name arguments))))]
   \<and> sse_sent (snd (sse_tools_list L e st))
     = sse_sent e @ [SentPOST (case endpoint_path e of None \<Rightarrow> ''/''
                               | Some ep \<Rightarrow> if ep = [] then ''/'' else ep)
                       [(''Content-Type'', ''application/json'')]
                       (JObj (request_msg (sse_next_id e) ''tools/list'' (Some (JObj []))))]
   \<and> sse_sent (snd (sse_tools_call L e name arguments st))
     = sse_sent e @ [SentPOST (case endpoint_path e of None \<Rightarrow> ''/''
                               | Some ep \<Rightarrow> if ep = [] then ''/'' else ep)
                       [(''Content-Type'', ''application/json'')]
                       (JObj (request_msg (sse_next_id e) ''tools/call''
                               (Some (tools_call_params name arguments))))]"
  by (simp add: stdio_tools_list_def stdio_tools_call_def stdio_request_log
        http_tools_list_def http_tools_call_def http_request_state send_and_read_log headers_def
        sse_tools_list_def sse_tools_call_def sse_request_log)

theorem tool_calls_reach_transport_witness:
  "written (snd (stdio_tools_list sample_lib (stdio_init [] Silent 0)))
     = [JObj (request_msg 1 ''tools/list'' (Some (JObj [])))]
   \<and> http_posted (snd (http_tools_list sample_lib (http_init ''localhost'' 8080 ''2025-06-18'')
                          (RaisesBadStatusLine ''0'')))
     = [(headers (http_init ''localhost'' 8080 ''2025-06-18''),
         JObj (request_msg 1 ''tools/list'' (Some (JObj []))))]"
  using tool_calls_reach_transport[where L = sample_lib and s = "stdio_init [] Silent 0"
          and c = "http_init ''localhost'' 8080 ''2025-06-18''" and r = "RaisesBadStatusLine ''0''"
          and name = "''read_graph''" and arguments = None and t = 30
          and e = sample_sse and st = 202]
  by (simp add: stdio_init_def http_init_def)

text \<open>
  C1 (as stated) fails: on a stdio client on which \<^verbatim>\<open>initialize\<close> was never called,
  \<^verbatim>\<open>tools_list\<close> writes the request with identifier 1 to the transport before it waits.
\<close>

theorem tool_call_before_initialize_counterexample:
  "written (stdio_init [] Silent 0) = []
   \<and> written (snd (stdio_tools_list sample_lib (stdio_init [] Silent 0)))
       = [JObj [(''jsonrpc'', JStr ''2.0''), (''id'', JInt 1), (''method'', JStr ''tools/list''),
                (''params'', JObj [])]]"
  by (simp add: stdio_tools_list_def stdio_request_log stdio_init_def request_msg_def)


subsection \<open>Request identifiers\<close>

text \<open>
  C3. Whatever a caller does with a client, and whatever the server answers, the
  identifiers of the requests the client has put on the transport are 1, 2, 3, ... in
  this order: the sequence starts at 1, is strictly increasing and has no repetition. This
  holds for the stdio client, the HTTP client and a connected SSE client; the calls that
  fail use up their identifier as well. On the stdio client a call may never return; the
  caller then makes no further call, and the identifiers are those of the calls it got to
  make.
\<close>

theorem request_ids_strictly_increasing:
  assumes "sse_connect L pv now g = Inr s0"
  shows "stdio_ids (stdio_run L (stdio_init ls e t) cs)
           = [1 .. int (length (filter stdio_numbered (stdio_begun L (stdio_init ls e t) cs)))]
       \<and> sorted_wrt (<) (stdio_ids (stdio_run L (stdio_init ls e t) cs))
       \<and> distinct (stdio_ids (stdio_run L (stdio_init ls e t) cs))
       \<and> http_ids (http_run L (http_init h p hv) xs)
           = [1 .. int (length (filter (\<lambda>x. http_numbered (fst x)) xs))]
       \<and> sorted_wrt (<) (http_ids (http_run L (http_init h p hv) xs))
       \<and> distinct (http_ids (http_run L (http_init h p hv) xs))
       \<and> sse_ids (sse_run L s0 ys)
           = [1 .. int (length (filter (\<lambda>x. sse_numbered (fst x)) ys))]
       \<and> sorted_wrt (<) (sse_ids (sse_run L s0 ys))
       \<and> distinct (sse_ids (sse_run L s0 ys))"
proof -
  have a: "stdio_ids (stdio_run L (stdio_init ls e t) cs)
             = [1 .. int (length (filter stdio_numbered (stdio_begun L (stdio_init ls e t) cs)))]"
    using stdio_run_ids[of L "stdio_init ls e t" cs]
    by (simp add: stdio_init_def stdio_ids_def List.map_filter_def)
  have b: "http_ids (http_run L (http_init h p hv) xs)
             = [1 .. int (length (filter (\<lambda>x. http_numbered (fst x)) xs))]"
    using http_run_ids[of L "http_init h p hv" xs]
    by (simp add: http_init_def http_ids_def List.map_filter_def)
  have c: "sse_ids (sse_run L s0 ys)
             = [1 .. int (length (filter (\<lambda>x. sse_numbered (fst x)) ys))]"
    using sse_run_ids[of L s0 ys] sse_connect_fresh[OF assms]
    by (simp add: sse_ids_def List.map_filter_def)
  show ?thesis
    unfolding a b c using upto_sorted_distinct by simp
qed

theorem request_ids_strictly_increasing_witness:
  "sse_connect sample_lib ''2024-11-05'' 0 sample_get = Inr sample_sse
   \<and> stdio_begun sample_lib (stdio_init [] Silent 0)
        [StdioToolsList, StdioSendInitialized, StdioInitialize ''e2e-tests'' ''0.0.1'' ''2025-06-18'']
       = [StdioToolsList, StdioSendInitialized, StdioInitialize ''e2e-tests'' ''0.0.1'' ''2025-06-18'']
   \<and> stdio_ids (stdio_run sample_lib (stdio_init [] Silent 0)
        [StdioToolsList, StdioSendInitialized, StdioInitialize ''e2e-tests'' ''0.0.1'' ''2025-06-18''])
       = [1 .. 2]
   \<and> http_ids (http_run sample_lib (http_init ''localhost'' 8080 ''2025-06-18'')
        [(HttpInitialize ''e2e-tests'' ''0.0.1'', RaisesBadStatusLine ''0''),
         (HttpToolsList, RaisesBadStatusLine ''0'')])
       = [1 .. 2]
   \<and> sse_ids (sse_run sample_lib sample_sse [(SseToolsList, 500), (SseToolsList, 500)])
       = [1 .. 2]"
proof -
  let ?cs = "[StdioToolsList, StdioSendInitialized,
              StdioInitialize ''e2e-tests'' ''0.0.1'' ''2025-06-18'']"
  have quiet: "\<And>rid d s. incoming s = [] \<Longrightarrow> ending s = Silent \<Longrightarrow> clock s < d \<Longrightarrow>
      await_loop sample_lib rid d s = (Some (Inl Timeout), s\<lparr>clock := d\<rparr>)"
  proof -
    fix rid d and s :: stdio_state
    assume "incoming s = []" "ending s = Silent" "clock s < d"
    then show "await_loop sample_lib rid d s = (Some (Inl Timeout), s\<lparr>clock := d\<rparr>)"
      by (simp add: await_loop.simps[of sample_lib rid d s]
            await_loop.simps[of sample_lib rid d "s\<lparr>clock := d\<rparr>"]
            read_msgs_once_def select_readable_def max_def)
  qed
  have bg: "stdio_begun sample_lib (stdio_init [] Silent 0) ?cs = ?cs"
    by (simp add: stdio_init_def stdio_tools_list_def stdio_request_def stdio_initialize_def
          stdio_send_initialized_def await_response_def write_msg_def quiet Let_def)
  show ?thesis
    using request_ids_strictly_increasing[OF sample_connect,
          of "[]" Silent 0 ?cs
             "''localhost''" 8080 "''2025-06-18''"
             "[(HttpInitialize ''e2e-tests'' ''0.0.1'', RaisesBadStatusLine ''0''),
               (HttpToolsList, RaisesBadStatusLine ''0'')]"
             "[(SseToolsList, 500), (SseToolsList, 500)]"]
        sample_connect bg
    by simp
qed


subsection \<open>The session identifier of the HTTP client\<close>

lemma send_and_read_session:
  "http_session_id (fst (snd (send_and_read L c p e r)))
     = (if http_session_id c = [] then first_sid [r] else http_session_id c)"
  by (cases r)
     (auto simp: send_and_read_def Let_def case_prod_beta split: option.splits)

lemma http_do_session:
  "http_session_id (http_do L c (k, r))
     = (if http_session_id c = [] then first_sid [r] else http_session_id c)"
  by (cases k)
     (simp_all add: http_request_state http_initialize_state http_send_initialized_state
        http_tools_list_def http_tools_call_def send_and_read_session)

lemma first_sid_Cons:
  "first_sid (r # rs) = (if first_sid [r] = [] then first_sid rs else first_sid [r])"
  by (cases r) (auto split: option.splits)

lemma http_run_session:
  "http_session_id (http_run L c xs)
     = (if http_session_id c = [] then first_sid (map snd xs) else http_session_id c)"
proof (induction xs arbitrary: c)
  case Nil
  then show ?case by simp
next
  case (Cons x xs)
  obtain k r where x: "x = (k, r)" by (cases x)
  show ?case
    using Cons.IH[of "http_do L c (k, r)"] x first_sid_Cons[of r "map snd xs"]
    by (simp add: http_do_session)
qed

lemma send_and_read_mismatch:
  assumes "mcp_session_id resp = Some sid" "sid \<noteq> []" "http_session_id c \<noteq> []"
    "sid \<noteq> http_session_id c"
  shows "fst (send_and_read L c p e (Responds resp)) = Inl (SessionMismatch (http_session_id c) sid)"
  using assms by (simp add: send_and_read_def Let_def)

lemma http_calls_propagate:
  "fst (send_and_read L (c\<lparr>http_next_id := http_next_id c + 1\<rparr>) (request_msg (http_next_id c) m ps) True r) = Inl err
     \<Longrightarrow> fst (http_request L c m ps r) = Inl err"
  by (simp add: http_request_def Let_def case_prod_beta split: sum.splits)


text \<open>
  C2. The HTTP client records the value of the first non-empty \<^verbatim>\<open>Mcp-Session-Id\<close> header
  it sees: after any sequence of calls on a new client the recorded session identifier is
  the first non-empty header value among the server's replies. A reply whose non-empty
  header differs from the recorded value makes the call fail with the session-mismatch
  error, in \<^verbatim>\<open>_send_and_read\<close> and so in \<^verbatim>\<open>request\<close>, and leaves the recorded value as
  it was; a reply with the same value, an empty one or none leaves it as it was too.
\<close>

theorem session_id_recorded_then_checked:
  "http_session_id (http_run L (http_init h p hv) xs) = first_sid (map snd xs)
   \<and> (mcp_session_id resp = Some sid \<and> sid \<noteq> [] \<and> http_session_id c = []
        \<longrightarrow> http_session_id (fst (snd (send_and_read L c payload ex (Responds resp)))) = sid)
   \<and> (mcp_session_id resp = Some sid \<and> sid \<noteq> [] \<and> http_session_id c \<noteq> []
         \<and> sid \<noteq> http_session_id c
        \<longrightarrow> fst (send_and_read L c payload ex (Responds resp))
              = Inl (SessionMismatch (http_session_id c) sid)
          \<and> fst (http_request L c m ps (Responds resp))
              = Inl (SessionMismatch (http_session_id c) sid)
          \<and> http_session_id (fst (snd (send_and_read L c payload ex (Responds resp))))
              = http_session_id c)
   \<and> (mcp_session_id resp = None \<or> mcp_session_id resp = Some []
         \<or> mcp_session_id resp = Some (http_session_id c)
        \<longrightarrow> http_session_id (fst (snd (send_and_read L c payload ex (Responds resp))))
              = http_session_id c)"
proof (intro conjI impI)
  show "http_session_id (http_run L (http_init h p hv) xs) = first_sid (map snd xs)"
    using http_run_session[of L "http_init h p hv" xs] by (simp add: http_init_def)
next
  assume "mcp_session_id resp = Some sid \<and> sid \<noteq> [] \<and> http_session_id c = []"
  then show "http_session_id (fst (snd (send_and_read L c payload ex (Responds resp)))) = sid"
    by (simp add: send_and_read_session)
next
  assume a: "mcp_session_id resp = Some sid \<and> sid \<noteq> [] \<and> http_session_id c \<noteq> []
    \<and> sid \<noteq> http_session_id c"
  then show "fst (send_and_read L c payload ex (Responds resp))
      = Inl (SessionMismatch (http_session_id c) sid)"
    by (simp add: send_and_read_mismatch)
  from a have "fst (send_and_read L (c\<lparr>http_next_id := http_next_id c + 1\<rparr>)
                 (request_msg (http_next_id c) m ps) True (Responds resp))
      = Inl (SessionMismatch (http_session_id c) sid)"
    using send_and_read_mismatch[of resp sid "c\<lparr>http_next_id := http_next_id c + 1\<rparr>"] by simp
  then show "fst (http_request L c m ps (Responds resp))
      = Inl (SessionMismatch (http_session_id c) sid)"
    by (rule http_calls_propagate)
  from a show "http_session_id (fst (snd (send_and_read L c payload ex (Responds resp))))
      = http_session_id c"
    by (simp add: send_and_read_session)
next
  assume "mcp_session_id resp = None \<or> mcp_session_id resp = Some []
    \<or> mcp_session_id resp = Some (http_session_id c)"
  then show "http_session_id (fst (snd (send_and_read L c payload ex (Responds resp))))
      = http_session_id c"
    by (auto simp: send_and_read_session)
qed

theorem session_id_recorded_then_checked_witness:
  "http_session_id (http_run sample_lib (http_init ''localhost'' 8080 ''2025-06-18'')
       [(HttpInitialize ''e2e-tests'' ''0.0.1'',
           Responds \<lparr>status = 202, mcp_session_id = Some ''A'', content_type = None, body = []\<rparr>),
        (HttpToolsList,
           Responds \<lparr>status = 202, mcp_session_id = Some ''B'', content_type = None, body = []\<rparr>)])
     = ''A''
   \<and> fst (http_request sample_lib
            ((http_init ''localhost'' 8080 ''2025-06-18'')\<lparr>http_session_id := ''A''\<rparr>)
            ''tools/list'' (Some (JObj []))
            (Responds \<lparr>status = 202, mcp_session_id = Some ''B'', content_type = None, body = []\<rparr>))
     = Inl (SessionMismatch ''A'' ''B'')
   \<and> http_session_id (fst (snd (send_and_read sample_lib
            ((http_init ''localhost'' 8080 ''2025-06-18'')\<lparr>http_session_id := ''A''\<rparr>)
            initialized_note False
            (Responds \<lparr>status = 202, mcp_session_id = None, content_type = None, body = []\<rparr>))))
     = ''A''"
  using session_id_recorded_then_checked[of sample_lib "''localhost''" 8080 "''2025-06-18''"
          "[(HttpInitialize ''e2e-tests'' ''0.0.1'',
               Responds \<lparr>status = 202, mcp_session_id = Some ''A'', content_type = None, body = []\<rparr>),
            (HttpToolsList,
               Responds \<lparr>status = 202, mcp_session_id = Some ''B'', content_type = None, body = []\<rparr>)]"
          "\<lparr>status = 202, mcp_session_id = Some ''B'', content_type = None, body = []\<rparr>" "''B''"
          "(http_init ''localhost'' 8080 ''2025-06-18'')\<lparr>http_session_id := ''A''\<rparr>"
          initialized_note False "''tools/list''" "Some (JObj [])"]
        session_id_recorded_then_checked[of sample_lib "''localhost''" 8080 "''2025-06-18''" "[]"
          "\<lparr>status = 202, mcp_session_id = None, content_type = None, body = []\<rparr>" "''B''"
          "(http_init ''localhost'' 8080 ''2025-06-18'')\<lparr>http_session_id := ''A''\<rparr>"
          initialized_note False "''tools/list''" "Some (JObj [])"]
  by (simp add: http_init_def)


subsection \<open>Replies of the HTTP client\<close>

lemma http_request_result:
  "fst (http_request L c m ps r)
     = (case fst (send_and_read L (c\<lparr>http_next_id := http_next_id c + 1\<rparr>)
                    (request_msg (http_next_id c) m ps) True r) of
          Inl e \<Rightarrow> Inl e
        | Inr None \<Rightarrow> Inr (JObj [])
        | Inr (Some resp) \<Rightarrow> Inr (if truthy resp then resp else JObj []))"
  by (simp add: http_request_def Let_def case_prod_beta split: sum.splits option.splits)

lemma send_and_read_accepted:
  assumes "session_accepts c resp"
  shows "fst (send_and_read L c payload ex (Responds resp)) = fst (read_response L payload ex resp)
       \<and> snd (snd (send_and_read L c payload ex (Responds resp)))
           = snd (read_response L payload ex resp)"
  using assms
  by (auto simp: send_and_read_def session_accepts_def Let_def case_prod_beta
           split: option.splits)

lemma request_msg_id: "dict_get (request_msg rid m ps) ''id'' = JInt rid"
  by (simp add: dict_get_def request_msg_def)

lemma sample_session_accepts:
  "session_accepts (http_init ''localhost'' 8080 ''2025-06-18'') r"
  by (simp add: session_accepts_def http_init_def split: option.splits)

lemmas sample_eval =
  media_type_def str_strip_def str_ws_def rstrip_crlf_def startswith_def bytes_lstrip_def
  bytes_ws_def loads_bytes_def sample_lib_def sample_loads_def dict_get_def

text \<open>
  C10. When the send-and-read of a \<^verbatim>\<open>request\<close> yields no message, \<^verbatim>\<open>request\<close> (and so
  \<^verbatim>\<open>tools_list\<close> and \<^verbatim>\<open>tools_call\<close>) returns the empty object instead of raising: for a
  response with status 202 or 204, for an empty \<^verbatim>\<open>application/json\<close> body, and for an
  event stream that ends without a message for the awaited identifier. A reply whose body
  decodes to the empty object gives the same result, so the caller cannot tell the two
  apart.
\<close>

theorem missing_reply_is_empty_object:
  assumes "session_accepts c resp"
  shows "(status resp = 202 \<or> status resp = 204
           \<longrightarrow> fst (http_request L c m ps (Responds resp)) = Inr (JObj [])
             \<and> fst (http_tools_list L c (Responds resp)) = Inr (JObj [])
             \<and> fst (http_tools_call L c name arguments (Responds resp)) = Inr (JObj []))
       \<and> (status resp \<noteq> 202 \<and> status resp \<noteq> 204
            \<and> media_type (content_type resp) = ''application/json'' \<and> body resp = []
           \<longrightarrow> fst (http_request L c m ps (Responds resp)) = Inr (JObj []))
       \<and> (status resp \<noteq> 202 \<and> status resp \<noteq> 204
            \<and> media_type (content_type resp) = ''text/event-stream''
            \<and> read_sse_events L True (JInt (http_next_id c)) [] (split_lines (body resp)) = Inr None
           \<longrightarrow> fst (http_request L c m ps (Responds resp)) = Inr (JObj []))
       \<and> (status resp \<noteq> 202 \<and> status resp \<noteq> 204
            \<and> media_type (content_type resp) = ''application/json'' \<and> body resp \<noteq> []
            \<and> json_loads_bytes L (body resp) = Inr (JObj [])
           \<longrightarrow> fst (http_request L c m ps (Responds resp)) = Inr (JObj []))"
proof -
  have acc: "session_accepts (c\<lparr>http_next_id := http_next_id c + 1\<rparr>) resp"
    using assms by (auto simp: session_accepts_def split: option.splits)
  have sr: "\<And>pl. fst (send_and_read L (c\<lparr>http_next_id := http_next_id c + 1\<rparr>) pl True (Responds resp))
      = fst (read_response L pl True resp)"
    using send_and_read_accepted[OF acc] by simp
  show ?thesis
    by (simp add: http_request_result sr read_response_def Let_def request_msg_id
          http_tools_list_def http_tools_call_def)
qed


theorem missing_reply_is_empty_object_witness:
  \<open>fst (http_request sample_lib (http_init ''localhost'' 8080 ''2025-06-18'') ''tools/list''
          (Some (JObj []))
          (Responds \<lparr>status = 202, mcp_session_id = None, content_type = None, body = []\<rparr>))
     = Inr (JObj [])
   \<and> fst (http_request sample_lib (http_init ''localhost'' 8080 ''2025-06-18'') ''tools/list''
          (Some (JObj []))
          (Responds \<lparr>status = 200, mcp_session_id = None,
                     content_type = Some ''application/json'', body = []\<rparr>))
     = Inr (JObj [])
   \<and> fst (http_request sample_lib (http_init ''localhost'' 8080 ''2025-06-18'') ''tools/list''
          (Some (JObj []))
          (Responds \<lparr>status = 200, mcp_session_id = None,
                     content_type = Some ''text/event-stream'',
                     body = ''event: message\<newline>data: {"a":1}\<newline>\<newline>''\<rparr>))
     = Inr (JObj [])
   \<and> fst (http_request sample_lib (http_init ''localhost'' 8080 ''2025-06-18'') ''tools/list''
          (Some (JObj []))
          (Responds \<lparr>status = 200, mcp_session_id = None,
                     content_type = Some ''application/json; charset=utf-8'', body = ''{}''\<rparr>))
     = Inr (JObj [])\<close>
  using missing_reply_is_empty_object[OF sample_session_accepts, of
          \<open>\<lparr>status = 202, mcp_session_id = None, content_type = None, body = []\<rparr>\<close>
          sample_lib \<open>''tools/list''\<close> \<open>Some (JObj [])\<close>]
        missing_reply_is_empty_object[OF sample_session_accepts, of
          \<open>\<lparr>status = 200, mcp_session_id = None,
             content_type = Some ''application/json'', body = []\<rparr>\<close>
          sample_lib \<open>''tools/list''\<close> \<open>Some (JObj [])\<close>]
        missing_reply_is_empty_object[OF sample_session_accepts, of
          \<open>\<lparr>status = 200, mcp_session_id = None,
             content_type = Some ''text/event-stream'',
             body = ''event: message\<newline>data: {"a":1}\<newline>\<newline>''\<rparr>\<close>
          sample_lib \<open>''tools/list''\<close> \<open>Some (JObj [])\<close>]
        missing_reply_is_empty_object[OF sample_session_accepts, of
          \<open>\<lparr>status = 200, mcp_session_id = None,
             content_type = Some ''application/json; charset=utf-8'', body = ''{}''\<rparr>\<close>
          sample_lib \<open>''tools/list''\<close> \<open>Some (JObj [])\<close>]
  by (simp add: sample_eval http_init_def)


subsection \<open>Lines of an event stream\<close>

lemma rstrip_crlf_append:
  "rstrip_crlf (a @ b) = (if rstrip_crlf b = [] then rstrip_crlf a else a @ rstrip_crlf b)"
  by (auto simp: rstrip_crlf_def dropWhile_append dropWhile_eq_Nil_conv)

lemma rstrip_crlf_plain: "plain p \<Longrightarrow> rstrip_crlf p = p"
proof (cases p rule: rev_cases)
  case Nil
  then show ?thesis by (simp add: rstrip_crlf_def)
next
  case (snoc ys y)
  assume "plain p"
  with snoc have "y \<noteq> CHR 0x0D \<and> y \<noteq> CHR 0x0A"
    by (cases ys) (auto split: if_splits)
  with snoc show ?thesis by (simp add: rstrip_crlf_def)
qed

lemma rstrip_crlf_ws: "list_all bytes_ws w \<Longrightarrow> list_all bytes_ws (rstrip_crlf w)"
  by (auto simp: rstrip_crlf_def list_all_iff dest: set_dropWhileD)

lemma lstrip_ws: "list_all bytes_ws w \<Longrightarrow> bytes_lstrip w = []"
  by (simp add: bytes_lstrip_def dropWhile_eq_Nil_conv list_all_iff)

lemma lstrip_ws_plain: "list_all bytes_ws w \<Longrightarrow> plain p \<Longrightarrow> bytes_lstrip (w @ p) = p"
  by (cases p) (auto simp: bytes_lstrip_def dropWhile_append list_all_iff split: if_splits)

lemma data_chunk_line:
  assumes "list_all bytes_ws w" "plain p"
  shows "startswith (rstrip_crlf (data_chunk w p)) ''data:''
       \<and> bytes_lstrip (drop 5 (rstrip_crlf (data_chunk w p))) = p
       \<and> data_chunk w p \<noteq> []"
proof -
  have lf: "rstrip_crlf [CHR 0x0A] = []" by (simp add: rstrip_crlf_def)
  have pre: "rstrip_crlf ''data:'' = ''data:''" by (simp add: rstrip_crlf_def)
  have tail: "rstrip_crlf (p @ [CHR 0x0A]) = p"
    using lf rstrip_crlf_plain[OF assms(2)] by (simp add: rstrip_crlf_append[of p])
  have mid: "rstrip_crlf (w @ (p @ [CHR 0x0A])) = (if p = [] then rstrip_crlf w else w @ p)"
    using tail by (simp add: rstrip_crlf_append[of w "p @ [CHR 0x0A]"])
  have "rstrip_crlf (''data:'' @ (w @ (p @ [CHR 0x0A])))
      = (if rstrip_crlf (w @ (p @ [CHR 0x0A])) = [] then rstrip_crlf ''data:''
         else ''data:'' @ rstrip_crlf (w @ (p @ [CHR 0x0A])))"
    by (rule rstrip_crlf_append)
  also have "\<dots> = ''data:'' @ (if p = [] then rstrip_crlf w else w @ p)"
    using pre mid by simp
  finally have line: "rstrip_crlf (data_chunk w p)
      = ''data:'' @ (if p = [] then rstrip_crlf w else w @ p)"
    by (simp add: data_chunk_def)
  have "bytes_lstrip (if p = [] then rstrip_crlf w else w @ p) = p"
    using lstrip_ws[OF rstrip_crlf_ws[OF assms(1)]] lstrip_ws_plain[OF assms] by simp
  with line show ?thesis
    by (simp add: startswith_def data_chunk_def)
qed

lemma event_buffers_data_lines:
  assumes "list_all (\<lambda>(w, p). list_all bytes_ws w \<and> plain p) ps"
  shows "event_buffers buf (map (\<lambda>(w, p). data_chunk w p) ps @ rest)
       = event_buffers (buf @ concat (map (\<lambda>(w, p). p @ [CHR 0x0A]) ps)) rest"
  using assms
proof (induction ps arbitrary: buf)
  case Nil
  then show ?case by simp
next
  case (Cons x ps)
  obtain w p where x: "x = (w, p)" by (cases x)
  with Cons.prems have wp: "list_all bytes_ws w" "plain p"
    and rest: "list_all (\<lambda>(w, p). list_all bytes_ws w \<and> plain p) ps" by simp_all
  show ?case
    using data_chunk_line[OF wp] Cons.IH[OF rest, of "buf @ p @ [CHR 0x0A]"] x
    by (simp add: Let_def)
qed

lemma data_not_event: "startswith x ''data:'' \<Longrightarrow> \<not> startswith x ''event:''"
  by (cases x) (auto simp: startswith_def)


subsection \<open>The branches of the response handling\<close>

lemma read_sse_events_by_event:
  "read_sse_events L ex t buf chunks = first_reply L ex t (event_buffers buf chunks)"
proof (induction chunks arbitrary: buf)
  case Nil
  then show ?case by simp
next
  case (Cons chunk rest)
  show ?case
    using Cons.IH
    by (cases ex)
       (simp_all add: Let_def match_event_def split: option.splits json.splits sum.splits)
qed

lemma scan_batch_find:
  "scan_batch True t ms =
     (if list_all is_object (takeWhile (\<lambda>m. \<not> answers t m) ms)
      then Inr (List.find (answers t) ms)
      else Inl PyAttributeError)"
proof (induction ms)
  case Nil
  then show ?case by simp
next
  case (Cons x ms)
  then show ?case by (cases x) simp_all
qed

lemma scan_batch_unexpected: "scan_batch False t ms = Inr None"
  by (induction ms) simp_all

lemma sse_scan_batch_find: "sse_scan_batch rid ms = List.find (answers (JInt rid)) ms"
proof (induction ms)
  case Nil
  then show ?case by simp
next
  case (Cons x ms)
  then show ?case by (cases x) simp_all
qed

lemma not_object_no_answer: "\<not> is_object x \<Longrightarrow> \<not> answers t x"
  by (cases x) simp_all

lemma takeWhile_past_non_object:
  assumes "list_all (\<lambda>m. \<not> answers t m) pre" and "\<not> is_object x"
  shows "\<not> list_all is_object (takeWhile (\<lambda>m. \<not> answers t m) (pre @ x # post))"
    and "List.find (answers t) (pre @ x # post) = List.find (answers t) post"
proof -
  have all: "\<forall>m \<in> set pre. \<not> answers t m" using assms(1) by (simp add: list_all_iff)
  have nx: "\<not> answers t x" using assms(2) by (rule not_object_no_answer)
  have "takeWhile (\<lambda>m. \<not> answers t m) (pre @ x # post)
      = pre @ x # takeWhile (\<lambda>m. \<not> answers t m) post"
    using all nx by (simp add: takeWhile_append2)
  with assms(2) show "\<not> list_all is_object (takeWhile (\<lambda>m. \<not> answers t m) (pre @ x # post))"
    by simp
  show "List.find (answers t) (pre @ x # post) = List.find (answers t) post"
    using all nx by (induction pre) simp_all
qed

text \<open>
  C6. The branch of \<^verbatim>\<open>_send_and_read\<close> for an event stream does not return the element of
  a batched array whose id is the awaited one when an element that is not an object stands
  before it: the loop of lines 98 to 106 calls \<^verbatim>\<open>m.get("id")\<close> on every element up to the
  match, and on a number, a string, a list or \<^verbatim>\<open>null\<close> that call raises
  \<^verbatim>\<open>AttributeError\<close>. So for a response with status other than 202 and 204 that is an
  event stream whose first event is one data line holding an array with such an element
  \<open>x\<close>, nothing before \<open>x\<close> having the awaited id, \<^verbatim>\<open>request\<close> raises, whatever follows
  \<open>x\<close> in the array and the event in the stream, and neither the response nor the
  connection is closed. In general the loop returns the first element with the awaited id
  exactly when every element before it is an object; the loop of the SSE client, which
  tests \<^verbatim>\<open>isinstance(m, dict)\<close> first, returns that element always.
\<close>

theorem batch_with_non_object_raises:
  assumes "session_accepts c resp"
    and "status resp \<noteq> 202" and "status resp \<noteq> 204"
    and "media_type (content_type resp) = ''text/event-stream''"
    and "split_lines (body resp) = data_chunk w p # [CHR 0x0A] # rest"
    and "list_all bytes_ws w" and "plain p"
    and "loads_bytes L (p @ [CHR 0x0A]) = Some (JArr (pre @ x # post))"
    and "list_all (\<lambda>m. \<not> answers (JInt (http_next_id c)) m) pre"
    and "\<not> is_object x"
  shows "fst (http_request L c mth params (Responds resp)) = Inl PyAttributeError
       \<and> read_response L (request_msg (http_next_id c) mth params) True resp
           = (Inl PyAttributeError,
              \<lparr>drained = False, resp_closed = False, conn_closed = False\<rparr>)
       \<and> List.find (answers (JInt (http_next_id c))) (pre @ x # post)
           = List.find (answers (JInt (http_next_id c))) post
       \<and> sse_scan_batch (http_next_id c) (pre @ x # post)
           = List.find (answers (JInt (http_next_id c))) post
       \<and> scan_batch True t ms
           = (if list_all is_object (takeWhile (\<lambda>m. \<not> answers t m) ms)
              then Inr (List.find (answers t) ms)
              else Inl PyAttributeError)
       \<and> scan_batch False t ms = Inr None
       \<and> sse_scan_batch rid ms = List.find (answers (JInt rid)) ms"
proof -
  let ?rid = "http_next_id c"
  let ?payload = "request_msg ?rid mth params"
  note tw = takeWhile_past_non_object[OF assms(9,10), of post]
  have sb: "scan_batch True (JInt ?rid) (pre @ x # post) = Inl PyAttributeError"
    using tw(1) by (simp add: scan_batch_find)
  note dl = data_chunk_line[OF assms(6,7)]
  have ev: "read_sse_events L True (JInt ?rid) [] (data_chunk w p # [CHR 0x0A] # rest)
              = Inl PyAttributeError"
    using dl assms(8) sb
    by (simp add: Let_def rstrip_crlf_def[of "[CHR 0x0A]"] startswith_def[of "[]"])
  have rr: "read_response L ?payload True resp
           = (Inl PyAttributeError,
              \<lparr>drained = False, resp_closed = False, conn_closed = False\<rparr>)"
    using assms(2,3,4,5) ev
    by (simp add: read_response_def Let_def request_msg_id)
  have acc: "session_accepts (c\<lparr>http_next_id := ?rid + 1\<rparr>) resp"
    using assms(1) by (simp add: session_accepts_def split: option.splits)
  have rq: "fst (http_request L c mth params (Responds resp)) = Inl PyAttributeError"
    using send_and_read_accepted[OF acc, of L ?payload True] rr
    by (simp add: http_request_result)
  have sib: "sse_scan_batch ?rid (pre @ x # post) = List.find (answers (JInt ?rid)) post"
    using tw(2) by (simp add: sse_scan_batch_find)
  show ?thesis
    using rq rr tw(2) sib scan_batch_find[of t ms] scan_batch_unexpected[of t ms]
      sse_scan_batch_find[of rid ms]
    by simp
qed

theorem batch_with_non_object_raises_witness:
  \<open>session_accepts (http_init ''localhost'' 8080 ''2025-06-18'')
      \<lparr>status = 200, mcp_session_id = None, content_type = Some ''text/event-stream'',
       body = ''data: [1,{"jsonrpc":"2.0","id":1,"result":{}}]\<newline>\<newline>''\<rparr>
   \<and> loads_bytes sample_lib ''[1,{"jsonrpc":"2.0","id":1,"result":{}}]\<newline>''
       = Some (JArr [JInt 1,
            JObj [(''jsonrpc'', JStr ''2.0''), (''id'', JInt 1), (''result'', JObj [])]])
   \<and> fst (http_request sample_lib (http_init ''localhost'' 8080 ''2025-06-18'') ''tools/list''
            (Some (JObj []))
            (Responds \<lparr>status = 200, mcp_session_id = None,
               content_type = Some ''text/event-stream'',
               body = ''data: [1,{"jsonrpc":"2.0","id":1,"result":{}}]\<newline>\<newline>''\<rparr>))
       = Inl PyAttributeError
   \<and> sse_scan_batch 1
        [JInt 1, JObj [(''jsonrpc'', JStr ''2.0''), (''id'', JInt 1), (''result'', JObj [])]]
       = Some (JObj [(''jsonrpc'', JStr ''2.0''), (''id'', JInt 1), (''result'', JObj [])])\<close>
proof -
  let ?c = "http_init ''localhost'' 8080 ''2025-06-18''"
  let ?resp = \<open>\<lparr>status = 200, mcp_session_id = None, content_type = Some ''text/event-stream'',
       body = ''data: [1,{"jsonrpc":"2.0","id":1,"result":{}}]\<newline>\<newline>''\<rparr>\<close>
  let ?obj = "JObj [(''jsonrpc'', JStr ''2.0''), (''id'', JInt 1), (''result'', JObj [])]"
  have h1: "session_accepts ?c ?resp" by (rule sample_session_accepts)
  have h2: "status ?resp \<noteq> 202" and h3: "status ?resp \<noteq> 204" by simp_all
  have h4: "media_type (content_type ?resp) = ''text/event-stream''"
    by (simp add: sample_eval)
  have h5: \<open>split_lines (body ?resp)
      = data_chunk '' '' ''[1,{"jsonrpc":"2.0","id":1,"result":{}}]'' # [CHR 0x0A] # []\<close>
    by (simp add: data_chunk_def)
  have h6: "list_all bytes_ws '' ''" by (simp add: bytes_ws_def)
  have h7: \<open>plain ''[1,{"jsonrpc":"2.0","id":1,"result":{}}]''\<close> by (simp add: bytes_ws_def)
  have h8: \<open>loads_bytes sample_lib (''[1,{"jsonrpc":"2.0","id":1,"result":{}}]'' @ [CHR 0x0A])
      = Some (JArr ([] @ JInt 1 # [?obj]))\<close>
    by (simp add: loads_bytes_def sample_lib_def sample_loads_def)
  have h9: "list_all (\<lambda>m. \<not> answers (JInt (http_next_id ?c)) m) []" by simp
  have h10: "\<not> is_object (JInt 1)" by simp
  show ?thesis
    using h1 h8
      batch_with_non_object_raises[OF h1 h2 h3 h4 h5 h6 h7 h8 h9 h10,
        where mth = "''tools/list''" and params = "Some (JObj [])" and t = "JInt 1"
          and ms = "[]" and rid = 1]
    by (simp add: http_init_def dict_get_def)
qed


subsection \<open>Data lines of an event\<close>

lemma lstrip_spec_payload: "bytes_lstrip (drop 5 line) = bytes_lstrip (spec_data_payload line)"
  by (simp add: spec_data_payload_def bytes_lstrip_def bytes_ws_def split: list.splits)

lemma lstrip_unchanged: "(bytes_lstrip x = x) = (x = [] \<or> \<not> bytes_ws (hd x))"
proof (cases x)
  case Nil
  then show ?thesis by (simp add: bytes_lstrip_def)
next
  case (Cons a list)
  have "dropWhile bytes_ws list \<noteq> a # list"
    using length_dropWhile_le[of bytes_ws list] by (auto dest: arg_cong[where f = length])
  with Cons show ?thesis by (simp add: bytes_lstrip_def)
qed

lemma data_line_read:
  assumes "startswith (rstrip_crlf chunk) ''data:''"
  shows "read_sse_events L ex t buf (chunk # rest)
       = read_sse_events L ex t
           (buf @ bytes_lstrip (spec_data_payload (rstrip_crlf chunk)) @ [CHR 0x0A]) rest"
proof -
  have "chunk \<noteq> []" using assms by (auto simp: startswith_def rstrip_crlf_def)
  with assms show ?thesis by (simp add: Let_def lstrip_spec_payload)
qed

lemma data_lines_read:
  assumes "list_all (\<lambda>c. startswith (rstrip_crlf c) ''data:'') cs"
  shows "read_sse_events L ex t buf (cs @ rest)
       = read_sse_events L ex t
           (buf @ concat (map (\<lambda>c. bytes_lstrip (spec_data_payload (rstrip_crlf c)) @ [CHR 0x0A]) cs))
           rest"
  using assms
proof (induction cs arbitrary: buf)
  case Nil
  then show ?case by simp
next
  case (Cons c cs)
  then have c: "startswith (rstrip_crlf c) ''data:''"
    and cs: "list_all (\<lambda>c. startswith (rstrip_crlf c) ''data:'') cs" by simp_all
  show ?case
    using data_line_read[OF c, of L ex t buf "cs @ rest"]
      Cons.IH[OF cs, of "buf @ bytes_lstrip (spec_data_payload (rstrip_crlf c)) @ [CHR 0x0A]"]
    by simp
qed

text \<open>
  C9. From a line that begins with \<^verbatim>\<open>data:\<close>, whatever its line end, each of the three
  parsing loops removes the prefix and then \<^emph>\<open>all\<close> leading ASCII whitespace
  (\<^verbatim>\<open>line[5:].lstrip()\<close>), where the comment of the source and the claim say the prefix
  and one optional space. What the loops append to the buffer is therefore the payload of
  the claim, stripped once more, and a newline; it is the payload of the claim exactly
  when that payload is empty or does not start with whitespace. Further leading whitespace
  of a payload is not preserved: of the two spaces of \<^verbatim>\<open>data:  x\<close> none is left. The data
  lines of one event are joined as the claim says, each followed by a single newline.
\<close>

theorem data_line_payload_loses_leading_whitespace:
  assumes "startswith (rstrip_crlf chunk) ''data:''"
    and "list_all (\<lambda>c. startswith (rstrip_crlf c) ''data:'') cs"
  shows "read_sse_events L ex t buf (chunk # rest)
           = read_sse_events L ex t
               (buf @ bytes_lstrip (spec_data_payload (rstrip_crlf chunk)) @ [CHR 0x0A]) rest
       \<and> (sse_stream s = (\<tau>, chunk) # later \<and> \<tau> \<le> sse_clock s + 30
           \<longrightarrow> open_sse_loop L event_type buf s
               = open_sse_loop L event_type
                   (buf @ bytes_lstrip (spec_data_payload (rstrip_crlf chunk)) @ [CHR 0x0A])
                   (s\<lparr>sse_stream := later, sse_clock := max (sse_clock s) \<tau>\<rparr>))
       \<and> (sse_stream s = (\<tau>, chunk) # later \<and> \<tau> \<le> sse_clock s + 30
            \<and> sse_clock s - start < timeout
           \<longrightarrow> sse_await_loop L req_id start timeout buf s
               = sse_await_loop L req_id start timeout
                   (buf @ bytes_lstrip (spec_data_payload (rstrip_crlf chunk)) @ [CHR 0x0A])
                   (s\<lparr>sse_stream := later, sse_clock := max (sse_clock s) \<tau>\<rparr>))
       \<and> ((bytes_lstrip (spec_data_payload (rstrip_crlf chunk))
             = spec_data_payload (rstrip_crlf chunk))
            = (spec_data_payload (rstrip_crlf chunk) = []
               \<or> \<not> bytes_ws (hd (spec_data_payload (rstrip_crlf chunk)))))
       \<and> read_sse_events L ex t buf (cs @ rest)
           = read_sse_events L ex t
               (buf @ concat (map (\<lambda>c. bytes_lstrip (spec_data_payload (rstrip_crlf c))
                                         @ [CHR 0x0A]) cs))
               rest"
proof (intro conjI impI)
  have ne: "chunk \<noteq> []" using assms(1) by (auto simp: startswith_def rstrip_crlf_def)
  have noev: "\<not> startswith (rstrip_crlf chunk) ''event:''"
    using assms(1) data_not_event by blast
  show "read_sse_events L ex t buf (chunk # rest)
           = read_sse_events L ex t
               (buf @ bytes_lstrip (spec_data_payload (rstrip_crlf chunk)) @ [CHR 0x0A]) rest"
    by (rule data_line_read[OF assms(1)])
  show "(bytes_lstrip (spec_data_payload (rstrip_crlf chunk))
             = spec_data_payload (rstrip_crlf chunk))
            = (spec_data_payload (rstrip_crlf chunk) = []
               \<or> \<not> bytes_ws (hd (spec_data_payload (rstrip_crlf chunk))))"
    by (rule lstrip_unchanged)
  show "read_sse_events L ex t buf (cs @ rest)
           = read_sse_events L ex t
               (buf @ concat (map (\<lambda>c. bytes_lstrip (spec_data_payload (rstrip_crlf c))
                                         @ [CHR 0x0A]) cs))
               rest"
    by (rule data_lines_read[OF assms(2)])
  {
    assume a: "sse_stream s = (\<tau>, chunk) # later \<and> \<tau> \<le> sse_clock s + 30"
    then show "open_sse_loop L event_type buf s
               = open_sse_loop L event_type
                   (buf @ bytes_lstrip (spec_data_payload (rstrip_crlf chunk)) @ [CHR 0x0A])
                   (s\<lparr>sse_stream := later, sse_clock := max (sse_clock s) \<tau>\<rparr>)"
      using assms(1) noev ne
      by (simp add: open_sse_loop.simps[of L event_type buf s] sse_readline_def Let_def
            lstrip_spec_payload)
  }
  {
    assume a: "sse_stream s = (\<tau>, chunk) # later \<and> \<tau> \<le> sse_clock s + 30
            \<and> sse_clock s - start < timeout"
    then show "sse_await_loop L req_id start timeout buf s
               = sse_await_loop L req_id start timeout
                   (buf @ bytes_lstrip (spec_data_payload (rstrip_crlf chunk)) @ [CHR 0x0A])
                   (s\<lparr>sse_stream := later, sse_clock := max (sse_clock s) \<tau>\<rparr>)"
      using assms(1) ne
      by (simp add: sse_await_loop.simps[of L req_id start timeout buf s] sse_readline_def
            Let_def lstrip_spec_payload)
  }
qed

theorem data_line_payload_loses_leading_whitespace_witness:
  \<open>startswith (rstrip_crlf (''data:  x'' @ [CHR 0x0D, CHR 0x0A])) ''data:''
   \<and> spec_data_payload (rstrip_crlf (''data:  x'' @ [CHR 0x0D, CHR 0x0A])) = '' x''
   \<and> bytes_lstrip (spec_data_payload (rstrip_crlf (''data:  x'' @ [CHR 0x0D, CHR 0x0A]))) = ''x''
   \<and> read_sse_events sample_lib True (JInt 1) [] [''data:  x'' @ [CHR 0x0D, CHR 0x0A]]
       = read_sse_events sample_lib True (JInt 1) ''x\<newline>'' []
   \<and> read_sse_events sample_lib True (JInt 1) [] [''data:  a\<newline>'', ''data: b'']
       = read_sse_events sample_lib True (JInt 1) ''a\<newline>b\<newline>'' []
   \<and> open_sse_loop sample_lib None []
         (sample_sse\<lparr>sse_stream := [(0, ''data:  x'' @ [CHR 0x0D, CHR 0x0A])]\<rparr>)
       = open_sse_loop sample_lib None ''x\<newline>'' (sample_sse\<lparr>sse_stream := []\<rparr>)
   \<and> sse_await_loop sample_lib 1 0 30 []
         (sample_sse\<lparr>sse_stream := [(0, ''data:  x'' @ [CHR 0x0D, CHR 0x0A])]\<rparr>)
       = sse_await_loop sample_lib 1 0 30 ''x\<newline>'' (sample_sse\<lparr>sse_stream := []\<rparr>)\<close>
proof -
  let ?chunk = "''data:  x'' @ [CHR 0x0D, CHR 0x0A]"
  have h1: "startswith (rstrip_crlf ?chunk) ''data:''"
    by (simp add: rstrip_crlf_def startswith_def)
  have h2: \<open>list_all (\<lambda>c. startswith (rstrip_crlf c) ''data:'') [''data:  a\<newline>'', ''data: b'']\<close>
    by (simp add: rstrip_crlf_def startswith_def)
  have p: "spec_data_payload (rstrip_crlf ?chunk) = '' x''"
    by (simp add: rstrip_crlf_def spec_data_payload_def)
  have q: "bytes_lstrip '' x'' = ''x''" by (simp add: bytes_lstrip_def bytes_ws_def)
  have pa: \<open>bytes_lstrip (spec_data_payload (rstrip_crlf ''data:  a\<newline>'')) = ''a''\<close>
    by (simp add: rstrip_crlf_def spec_data_payload_def bytes_lstrip_def bytes_ws_def)
  have pb: \<open>bytes_lstrip (spec_data_payload (rstrip_crlf ''data: b'')) = ''b''\<close>
    by (simp add: rstrip_crlf_def spec_data_payload_def bytes_lstrip_def bytes_ws_def)
  show ?thesis
    using h1 p q pa pb
      data_line_payload_loses_leading_whitespace[OF h1 h2,
        where L = sample_lib and ex = True and t = "JInt 1" and buf = "[]" and rest = "[]"
          and s = "sample_sse\<lparr>sse_stream := [(0, ?chunk)]\<rparr>"
          and \<tau> = 0 and later = "[]" and event_type = None and start = 0 and timeout = 30
          and req_id = 1]
    by (simp add: sample_sse_def)
qed


subsection \<open>Batched replies on stdio\<close>

lemma take_line_Some:
  "take_line b = Some (line, rem) \<Longrightarrow> b = line @ rem \<and> line \<noteq> []"
  by (induction b arbitrary: line rem) (auto split: if_splits option.splits)

lemma take_line_append_None: "take_line (a @ b) = None \<Longrightarrow> take_line a = None"
  by (induction a) (auto split: if_splits option.splits)

text \<open>
  C4. The stdio client waits for the reply to request 1 and the next line decodes to the
  array of the reply with \<^verbatim>\<open>id\<close> 1 followed by a message without \<^verbatim>\<open>id\<close>. The
  \<^verbatim>\<open>for\<close> loop returns at the reply, its first element, and never looks at the second:
  the reply is returned and the notification queue is left as it was. With the two
  elements in the other order the message without \<^verbatim>\<open>id\<close> is queued before the reply
  is returned. The line is what the next read of the pipe completes: no line is buffered
  yet, and the read, which comes within the timeout, brings the rest of the line and
  perhaps more.
\<close>

theorem batched_reply_loses_notification:
  fixes resp notif :: json
  defines "resp \<equiv> JObj [(''jsonrpc'', JStr ''2.0''), (''id'', JInt 1), (''result'', JObj [])]"
    and "notif \<equiv> JObj [(''jsonrpc'', JStr ''2.0''), (''method'', JStr ''notifications/x'')]"
  assumes "take_line (buffered s) = None"
    and "incoming s = (\<tau>, d) # rest" and "d \<noteq> []"
    and "take_line (buffered s @ d) = Some (line, rem)"
    and "\<tau> \<le> clock s + timeout" and "0 < timeout"
  shows "(json_loads L line = Some (JArr [resp, notif])
           \<longrightarrow> await_response L s 1 timeout
               = (Some (Inr resp),
                  s\<lparr>buffered := rem, incoming := rest, clock := max (clock s) \<tau>\<rparr>))
       \<and> (json_loads L line = Some (JArr [notif, resp])
           \<longrightarrow> await_response L s 1 timeout
               = (Some (Inr resp),
                  s\<lparr>buffered := rem, incoming := rest, clock := max (clock s) \<tau>,
                    notifications := notifications s @ [notif]\<rparr>))"
proof -
  have ne: "line \<noteq> []" using take_line_Some[OF assms(6)] by simp
  have rd: "read_msgs_once L s timeout
      = (if line = [] then (Some (Inl TransportClosed),
                            s\<lparr>buffered := rem, incoming := rest, clock := max (clock s) \<tau>\<rparr>)
         else case json_loads L line of
                None \<Rightarrow> (Some (Inl JSONDecodeError),
                          s\<lparr>buffered := rem, incoming := rest, clock := max (clock s) \<tau>\<rparr>)
              | Some (JArr ms) \<Rightarrow> (Some (Inr ms),
                          s\<lparr>buffered := rem, incoming := rest, clock := max (clock s) \<tau>\<rparr>)
              | Some d \<Rightarrow> (Some (Inr [d]),
                          s\<lparr>buffered := rem, incoming := rest, clock := max (clock s) \<tau>\<rparr>))"
    using assms(3-8)
    by (simp add: read_msgs_once_def select_readable_def readline_def)
  show ?thesis
    using assms(8) ne rd
    by (simp add: await_response_def await_loop.simps[of L 1 "clock s + timeout" s]
          resp_def notif_def dict_get_def)
qed

theorem batched_reply_loses_notification_witness:
  \<open>await_response sample_lib
      (stdio_init [(0, ''[{"jsonrpc":"2.0","id":1,"result":{}},{"jsonrpc":"2.0","method":"notifications/x"}]\<newline>'')]
         Silent 0)
      1 10
   = (Some (Inr (JObj [(''jsonrpc'', JStr ''2.0''), (''id'', JInt 1), (''result'', JObj [])])),
      stdio_init [] Silent 0)
   \<and> notifications (stdio_init [] Silent 0) = []\<close>
  using batched_reply_loses_notification[where L = sample_lib and timeout = 10 and \<tau> = 0
          and rest = "[]" and rem = "[]"
          and d = \<open>''[{"jsonrpc":"2.0","id":1,"result":{}},{"jsonrpc":"2.0","method":"notifications/x"}]\<newline>''\<close>
          and line = \<open>''[{"jsonrpc":"2.0","id":1,"result":{}},{"jsonrpc":"2.0","method":"notifications/x"}]\<newline>''\<close>
          and s = \<open>stdio_init [(0, ''[{"jsonrpc":"2.0","id":1,"result":{}},{"jsonrpc":"2.0","method":"notifications/x"}]\<newline>'')]
                    Silent 0\<close>]
  by (simp add: stdio_init_def sample_lib_def sample_loads_def)


subsection \<open>One event through the parsing loops\<close>

lemmas line_eval = Let_def rstrip_crlf_def startswith_def bytes_lstrip_def bytes_ws_def

text \<open>
  C5 (as the code has it). The lines of \<^verbatim>\<open>event: message\<close>, \<^verbatim>\<open>data: {"a":1}\<close> and
  a blank line go through the two loops as follows. The loop of the HTTP client ignores
  the \<^verbatim>\<open>event:\<close> line and keeps no event type; the data line makes the buffer
  \<^verbatim>\<open>{"a":1}\<close> with a newline, the blank line hands this one buffer to the decoder and
  empties it, and the decoded object is returned only when its \<^verbatim>\<open>id\<close> (it has none)
  equals the awaited one, otherwise the loop reads on. The loop of \<^verbatim>\<open>_open_sse\<close> sets the
  type to \<^verbatim>\<open>message\<close>, collects the data, and at the blank line resets type and buffer
  without decoding or handing on anything, and reads on for the endpoint.
\<close>

theorem sse_message_event_in_the_two_loops:
  fixes enc :: string and obj :: json
  defines \<open>enc \<equiv> ''event: message\<newline>data: {"a":1}\<newline>\<newline>''\<close>
    and "obj \<equiv> JObj [(''a'', JInt 1)]"
  assumes \<open>loads_bytes L ''{"a":1}\<newline>'' = Some obj\<close>
    and "utf8_decode L ''message'' = Some ''message''"
    and \<open>sse_stream s = (\<tau>1, ''event: message\<newline>'') # (\<tau>2, ''data: {"a":1}\<newline>'')
            # (\<tau>3, ''\<newline>'') # later\<close>
    and "\<tau>1 \<le> sse_clock s" and "\<tau>2 \<le> sse_clock s" and "\<tau>3 \<le> sse_clock s"
  shows \<open>split_lines enc = [''event: message\<newline>'', ''data: {"a":1}\<newline>'', ''\<newline>'']
       \<and> read_sse_events L ex t buf (''event: message\<newline>'' # rest)
           = read_sse_events L ex t buf rest
       \<and> event_buffers [] (split_lines enc @ rest) = ''{"a":1}\<newline>'' # event_buffers [] rest
       \<and> read_sse_events L True t [] (split_lines enc @ rest)
           = (if py_eq JNull t then Inr (Some obj) else read_sse_events L True t [] rest)
       \<and> open_sse_loop L event_type [] s
           = open_sse_loop L (Some ''message'') ''{"a":1}\<newline>''
               (s\<lparr>sse_stream := (\<tau>3, ''\<newline>'') # later\<rparr>)
       \<and> open_sse_loop L event_type [] s
           = open_sse_loop L None [] (s\<lparr>sse_stream := later\<rparr>)\<close>
proof -
  have sl: \<open>split_lines enc = [''event: message\<newline>'', ''data: {"a":1}\<newline>'', ''\<newline>'']\<close>
    by (simp add: enc_def)
  have ig: "read_sse_events L ex t buf (''event: message\<newline>'' # rest)
           = read_sse_events L ex t buf rest"
    by (simp add: line_eval)
  have eb: \<open>event_buffers [] (split_lines enc @ rest) = ''{"a":1}\<newline>'' # event_buffers [] rest\<close>
    unfolding sl by (simp add: line_eval)
  have rd: "read_sse_events L True t [] (split_lines enc @ rest)
           = (if py_eq JNull t then Inr (Some obj) else read_sse_events L True t [] rest)"
    unfolding read_sse_events_by_event eb
    using assms(3) by (simp add: match_event_def obj_def dict_get_def)
  let ?s1 = \<open>s\<lparr>sse_stream := (\<tau>2, ''data: {"a":1}\<newline>'') # (\<tau>3, ''\<newline>'') # later\<rparr>\<close>
  let ?s2 = \<open>s\<lparr>sse_stream := (\<tau>3, ''\<newline>'') # later\<rparr>\<close>
  have e1: "open_sse_loop L event_type [] s = open_sse_loop L (Some ''message'') [] ?s1"
    using assms(4-6)
    by (simp add: open_sse_loop.simps[of L event_type "[]" s] sse_readline_def line_eval max_def)
  have e2: \<open>open_sse_loop L (Some ''message'') [] ?s1
      = open_sse_loop L (Some ''message'') ''{"a":1}\<newline>'' ?s2\<close>
    using assms(7)
    by (simp add: open_sse_loop.simps[of L "Some ''message''" "[]" ?s1] sse_readline_def
          line_eval max_def)
  have e3: \<open>open_sse_loop L (Some ''message'') ''{"a":1}\<newline>'' ?s2
      = open_sse_loop L None [] (s\<lparr>sse_stream := later\<rparr>)\<close>
    using assms(8)
    by (simp add: open_sse_loop.simps[of L "Some ''message''" \<open>''{"a":1}\<newline>''\<close> ?s2]
          sse_readline_def line_eval max_def)
  have e12: \<open>open_sse_loop L event_type [] s
      = open_sse_loop L (Some ''message'') ''{"a":1}\<newline>'' ?s2\<close>
    using e1 e2 by (rule trans)
  have e123: "open_sse_loop L event_type [] s = open_sse_loop L None [] (s\<lparr>sse_stream := later\<rparr>)"
    using e12 e3 by (rule trans)
  show ?thesis
    by (intro conjI) (rule sl ig eb rd e12 e123)+
qed


theorem sse_message_event_in_the_two_loops_witness:
  \<open>loads_bytes sample_lib ''{"a":1}\<newline>'' = Some (JObj [(''a'', JInt 1)])
   \<and> event_buffers [] (split_lines ''event: message\<newline>data: {"a":1}\<newline>\<newline>'')
       = [''{"a":1}\<newline>'']
   \<and> read_sse_events sample_lib True JNull []
         (split_lines ''event: message\<newline>data: {"a":1}\<newline>\<newline>'')
       = Inr (Some (JObj [(''a'', JInt 1)]))
   \<and> open_sse_loop sample_lib None []
         (sample_sse\<lparr>sse_stream := [(0, ''event: message\<newline>''), (0, ''data: {"a":1}\<newline>''),
                                      (0, ''\<newline>'')]\<rparr>)
       = open_sse_loop sample_lib None [] (sample_sse\<lparr>sse_stream := []\<rparr>)\<close>
proof -
  have h1: \<open>loads_bytes sample_lib ''{"a":1}\<newline>'' = Some (JObj [(''a'', JInt 1)])\<close>
    by (simp add: loads_bytes_def sample_lib_def sample_loads_def)
  have h2: "utf8_decode sample_lib ''message'' = Some ''message''"
    by (simp add: sample_lib_def)
  have h3: \<open>sse_stream (sample_sse\<lparr>sse_stream := [(0, ''event: message\<newline>''),
                 (0, ''data: {"a":1}\<newline>''), (0, ''\<newline>'')]\<rparr>)
      = (0, ''event: message\<newline>'') # (0, ''data: {"a":1}\<newline>'') # (0, ''\<newline>'') # []\<close>
    by simp
  have h4: \<open>0 \<le> sse_clock (sample_sse\<lparr>sse_stream := [(0, ''event: message\<newline>''),
                 (0, ''data: {"a":1}\<newline>''), (0, ''\<newline>'')]\<rparr>)\<close>
    by (simp add: sample_sse_def)
  note T = sse_message_event_in_the_two_loops[OF h1 h2 h3 h4 h4 h4,
            where t = JNull and rest = "[]" and event_type = None]
  note c3 = T[THEN conjunct2, THEN conjunct2, THEN conjunct1]
  note c4 = T[THEN conjunct2, THEN conjunct2, THEN conjunct2, THEN conjunct1]
  note c6 = T[THEN conjunct2, THEN conjunct2, THEN conjunct2, THEN conjunct2, THEN conjunct2]
  show ?thesis
    using h1 c3 c4 c6 by (simp add: line_eval dict_get_def)
qed

text \<open>
  C5 (as stated) fails: a request that awaits identifier 1 gets nothing from this stream,
  the result of the HTTP loop is the same whatever the \<^verbatim>\<open>event:\<close> line says, and the
  loop of \<^verbatim>\<open>_open_sse\<close> drops the event and raises when the stream ends.
\<close>

theorem sse_message_event_counterexample:
  \<open>read_sse_events sample_lib True (JInt 1) []
      (split_lines ''event: message\<newline>data: {"a":1}\<newline>\<newline>'')
     = Inr None
   \<and> read_sse_events sample_lib True JNull []
      (split_lines ''event: message\<newline>data: {"a":1}\<newline>\<newline>'')
     = read_sse_events sample_lib True JNull []
      (split_lines ''event: endpoint\<newline>data: {"a":1}\<newline>\<newline>'')
   \<and> fst (open_sse_loop sample_lib None []
           (sample_sse\<lparr>sse_stream := [(0, ''event: message\<newline>''), (0, ''data: {"a":1}\<newline>''),
                                        (0, ''\<newline>'')],
                        sse_ending := Closed 0\<rparr>))
     = Inl SseStreamEnded\<close>
  by (simp add: line_eval sample_eval open_sse_loop.simps sse_readline_def sample_sse_def)


subsection \<open>Timeouts and the end of the stream on stdio\<close>

lemma read_until_line_silent:
  assumes "list_all (\<lambda>(\<tau>, d). d \<noteq> []) chunks"
    and "take_line (buf @ concat (map snd chunks)) = None"
  shows "fst (read_until_line buf clk Silent chunks) = None"
  using assms
proof (induction chunks arbitrary: buf clk)
  case Nil
  then show ?case by simp
next
  case (Cons x chunks)
  obtain \<tau> d where x: "x = (\<tau>, d)" by (cases x)
  from Cons.prems x have d: "d \<noteq> []" and rest: "list_all (\<lambda>(\<tau>, d). d \<noteq> []) chunks"
    by simp_all
  from Cons.prems(2) x have all: "take_line ((buf @ d) @ concat (map snd chunks)) = None"
    by simp
  then have here: "take_line (buf @ d) = None" by (rule take_line_append_None)
  show ?case
    using x d here Cons.IH[OF rest all, of "max clk \<tau>"] by simp
qed

lemma read_msgs_once_partial_line:
  assumes "incoming s = (\<tau>, d) # rest"
    and "list_all (\<lambda>(\<tau>, d). d \<noteq> []) (incoming s)"
    and "ending s = Silent"
    and "take_line (buffered s @ concat (map snd (incoming s))) = None"
    and "\<tau> \<le> clock s + timeout" and "0 \<le> timeout"
  shows "fst (read_msgs_once L s timeout) = None"
proof -
  let ?s1 = "s\<lparr>clock := max (clock s) \<tau>\<rparr>"
  have sel: "select_readable s timeout = (True, ?s1)"
    using assms(1,5) by (simp add: select_readable_def)
  have nb: "take_line (buffered s) = None"
    using assms(4) by (rule take_line_append_None)
  have "fst (read_until_line (buffered s) (max (clock s) \<tau>) Silent (incoming s)) = None"
    using assms(2,4) by (rule read_until_line_silent)
  then have "fst (readline ?s1) = None"
    using nb assms(3) by (simp add: readline_def case_prod_beta)
  then show ?thesis
    using sel assms(6)
    by (cases "readline ?s1") (simp add: read_msgs_once_def)
qed

lemma read_msgs_once_nothing_to_read:
  assumes "incoming s = []" and "ending s = Silent" and "0 \<le> t"
  shows "read_msgs_once L s t = (Some (Inl Timeout), s\<lparr>clock := clock s + t\<rparr>)"
  using assms by (simp add: read_msgs_once_def select_readable_def)

lemma await_loop_nothing_to_read:
  assumes "incoming s = []" and "ending s = Silent" and "clock s \<le> dl"
  shows "await_loop L rid dl s = (Some (Inl Timeout), s\<lparr>clock := dl\<rparr>)"
proof (cases "clock s < dl")
  case True
  then have "read_msgs_once L s (max 0 (dl - clock s)) = (Some (Inl Timeout), s\<lparr>clock := dl\<rparr>)"
    using read_msgs_once_nothing_to_read[OF assms(1,2), of "dl - clock s" L] by simp
  with True show ?thesis by (simp add: await_loop.simps[of L rid dl s])
next
  case False
  with assms(3) have "clock s = dl" by simp
  then have "s\<lparr>clock := dl\<rparr> = s" by simp
  with False show ?thesis by (simp add: await_loop.simps[of L rid dl s])
qed

lemma await_response_hang:
  assumes "fst (read_msgs_once L s timeout) = None" and "0 < timeout"
  shows "fst (await_response L s rid timeout) = None"
  using assms
  by (cases "read_msgs_once L s timeout")
     (simp add: await_response_def await_loop.simps[of L rid "clock s + timeout" s])

text \<open>
  C7. Of the two blocking calls of \<^verbatim>\<open>_read_msgs_once\<close> only \<^verbatim>\<open>select\<close> takes the
  timeout; \<^verbatim>\<open>readline()\<close> has none. When the server has written the beginning of a line
  within the timeout, and neither it nor anything it writes later holds a line end, and
  the server does not close its output, \<^verbatim>\<open>select\<close> reports the pipe readable and
  \<^verbatim>\<open>readline()\<close> never returns: the read, the wait for a reply and \<^verbatim>\<open>request\<close> raise
  neither the timeout nor the closed-transport error, and the caller makes no further
  call. \<^verbatim>\<open>select\<close> also looks at the pipe and not at what Python has buffered: when one
  read of the pipe brings a message without \<^verbatim>\<open>id\<close> and, behind it, whatever else, say the
  line of the awaited reply, and the server then stays silent, the wait ends in the
  timeout error with the rest of that read still in the buffer.
\<close>

theorem partial_line_blocks_past_timeout:
  assumes "incoming s = (\<tau>, d) # rest"
    and "list_all (\<lambda>(\<tau>, d). d \<noteq> []) (incoming s)"
    and "ending s = Silent"
    and "take_line (buffered s @ concat (map snd (incoming s))) = None"
    and "\<tau> \<le> clock s + timeout" and "0 < timeout"
  shows "fst (read_msgs_once L s timeout) = None
       \<and> fst (await_response L s rid timeout) = None
       \<and> fst (stdio_request L s mth params timeout) = None
       \<and> stdio_begun L s (StdioRequest mth params timeout # cs)
           = [StdioRequest mth params timeout]
       \<and> (take_line (buffered sb) = None \<and> incoming sb = [(\<tau>b, db)] \<and> db \<noteq> []
            \<and> ending sb = Silent \<and> \<tau>b \<le> clock sb + timeout
            \<and> take_line (buffered sb @ db) = Some (line, rem)
            \<and> json_loads L line = Some (JObj kv) \<and> py_contains ''id'' (JObj kv) = Inr False
           \<longrightarrow> await_response L sb rid timeout
               = (Some (Inl Timeout),
                  sb\<lparr>buffered := rem, incoming := [], clock := clock sb + timeout,
                     notifications := notifications sb @ [JObj kv]\<rparr>))"
proof -
  have a: "fst (read_msgs_once L s timeout) = None"
    using assms(1-5) assms(6)[THEN less_imp_le] by (rule read_msgs_once_partial_line)
  have b: "fst (await_response L s rid timeout) = None"
    using a assms(6) by (rule await_response_hang)
  have c: "fst (stdio_request L s mth params timeout) = None"
  proof -
    define sw where "sw = write_msg (s\<lparr>stdio_next_id := stdio_next_id s + 1\<rparr>)
                 (JObj (request_msg (stdio_next_id s) mth params))"
    have fr: "incoming sw = incoming s" "ending sw = ending s" "buffered sw = buffered s"
      "clock sw = clock s"
      by (simp_all add: sw_def write_msg_def)
    have "fst (read_msgs_once L sw timeout) = None"
      using assms(1-5) assms(6)[THEN less_imp_le] fr
      by (intro read_msgs_once_partial_line[where \<tau> = \<tau> and d = d and rest = rest]) simp_all
    then have "fst (await_response L sw (stdio_next_id s) timeout) = None"
      using assms(6) by (rule await_response_hang)
    then show ?thesis by (simp add: stdio_request_def Let_def sw_def)
  qed
  have d: "stdio_begun L s (StdioRequest mth params timeout # cs)
           = [StdioRequest mth params timeout]"
    using c by (simp add: case_prod_beta)
  have e: "take_line (buffered sb) = None \<and> incoming sb = [(\<tau>b, db)] \<and> db \<noteq> []
            \<and> ending sb = Silent \<and> \<tau>b \<le> clock sb + timeout
            \<and> take_line (buffered sb @ db) = Some (line, rem)
            \<and> json_loads L line = Some (JObj kv) \<and> py_contains ''id'' (JObj kv) = Inr False
           \<longrightarrow> await_response L sb rid timeout
               = (Some (Inl Timeout),
                  sb\<lparr>buffered := rem, incoming := [], clock := clock sb + timeout,
                     notifications := notifications sb @ [JObj kv]\<rparr>)"
  proof (intro impI, elim conjE)
    assume h: "take_line (buffered sb) = None" "incoming sb = [(\<tau>b, db)]" "db \<noteq> []"
      "ending sb = Silent" "\<tau>b \<le> clock sb + timeout"
      "take_line (buffered sb @ db) = Some (line, rem)"
      "json_loads L line = Some (JObj kv)" "py_contains ''id'' (JObj kv) = Inr False"
    let ?dl = "clock sb + timeout"
    let ?s3 = "sb\<lparr>buffered := rem, incoming := [], clock := max (clock sb) \<tau>b\<rparr>"
    let ?s4 = "?s3\<lparr>notifications := notifications sb @ [JObj kv]\<rparr>"
    have ne: "line \<noteq> []" using take_line_Some[OF h(6)] by simp
    have rd: "read_msgs_once L sb (max 0 (?dl - clock sb)) = (Some (Inr [JObj kv]), ?s3)"
      using h ne assms(6)
      by (simp add: read_msgs_once_def select_readable_def readline_def)
    have first: "await_loop L rid ?dl sb = await_loop L rid ?dl ?s4"
      using rd h(8) assms(6)
      by (simp add: await_loop.simps[of L rid ?dl sb] del: py_contains.simps)
    have le: "clock ?s4 \<le> ?dl" using h(5) assms(6) by simp
    have last: "await_loop L rid ?dl ?s4 = (Some (Inl Timeout), ?s4\<lparr>clock := ?dl\<rparr>)"
      using h(4) le by (intro await_loop_nothing_to_read) simp_all
    show "await_response L sb rid timeout
               = (Some (Inl Timeout),
                  sb\<lparr>buffered := rem, incoming := [], clock := clock sb + timeout,
                     notifications := notifications sb @ [JObj kv]\<rparr>)"
      using first last by (simp add: await_response_def)
  qed
  show ?thesis using a b c d e by blast
qed

theorem partial_line_blocks_past_timeout_witness:
  \<open>fst (stdio_request sample_lib (stdio_init [(1, ''{"jsonrpc":"2.0",'')] Silent 0)
          ''tools/list'' (Some (JObj [])) 30) = None
   \<and> stdio_begun sample_lib (stdio_init [(1, ''{"jsonrpc":"2.0",'')] Silent 0)
        [StdioRequest ''tools/list'' (Some (JObj [])) 30, StdioSendInitialized]
       = [StdioRequest ''tools/list'' (Some (JObj [])) 30]
   \<and> await_response sample_lib
        (stdio_init [(1, ''{"a":1}\<newline>{"jsonrpc":"2.0","id":1,"result":{}}\<newline>'')] Silent 0)
        1 30
       = (Some (Inl Timeout),
          \<lparr>stdio_next_id = 1, notifications = [JObj [(''a'', JInt 1)]], written = [],
           buffered = ''{"jsonrpc":"2.0","id":1,"result":{}}\<newline>'', incoming = [],
           ending = Silent, clock = 30\<rparr>)\<close>
proof -
  let ?s = \<open>stdio_init [(1, ''{"jsonrpc":"2.0",'')] Silent 0\<close>
  let ?s2 = \<open>stdio_init [(1, ''{"a":1}\<newline>{"jsonrpc":"2.0","id":1,"result":{}}\<newline>'')]
              Silent 0\<close>
  have h1: \<open>incoming ?s = (1, ''{"jsonrpc":"2.0",'') # []\<close> by (simp add: stdio_init_def)
  have h2: "list_all (\<lambda>(\<tau>, d). d \<noteq> []) (incoming ?s)" by (simp add: stdio_init_def)
  have h3: "ending ?s = Silent" by (simp add: stdio_init_def)
  have h4: "take_line (buffered ?s @ concat (map snd (incoming ?s))) = None"
    by (simp add: stdio_init_def)
  have h5: "(1::real) \<le> clock ?s + 30" by (simp add: stdio_init_def)
  have h6: "(0::real) < 30" by simp
  have g: \<open>take_line (buffered ?s2) = None
      \<and> incoming ?s2 = [(1, ''{"a":1}\<newline>{"jsonrpc":"2.0","id":1,"result":{}}\<newline>'')]
      \<and> ''{"a":1}\<newline>{"jsonrpc":"2.0","id":1,"result":{}}\<newline>'' \<noteq> []
      \<and> ending ?s2 = Silent \<and> 1 \<le> clock ?s2 + 30
      \<and> take_line (buffered ?s2 @ ''{"a":1}\<newline>{"jsonrpc":"2.0","id":1,"result":{}}\<newline>'')
          = Some (''{"a":1}\<newline>'', ''{"jsonrpc":"2.0","id":1,"result":{}}\<newline>'')
      \<and> json_loads sample_lib ''{"a":1}\<newline>'' = Some (JObj [(''a'', JInt 1)])
      \<and> py_contains ''id'' (JObj [(''a'', JInt 1)]) = Inr False\<close>
    by (simp add: stdio_init_def sample_lib_def sample_loads_def)
  show ?thesis
    using partial_line_blocks_past_timeout[OF h1 h2 h3 h4 h5 h6,
        where L = sample_lib and rid = 1 and mth = "''tools/list''"
          and params = "Some (JObj [])" and cs = "[StdioSendInitialized]"
          and sb = ?s2 and \<tau>b = 1
          and db = \<open>''{"a":1}\<newline>{"jsonrpc":"2.0","id":1,"result":{}}\<newline>''\<close>
          and line = \<open>''{"a":1}\<newline>''\<close>
          and rem = \<open>''{"jsonrpc":"2.0","id":1,"result":{}}\<newline>''\<close>
          and kv = "[(''a'', JInt 1)]"]
      g
    by (simp add: stdio_init_def)
qed


subsection \<open>The endpoint of the SSE client\<close>









end
